theory Spec2Isabelle
  imports Main "HOL-Library.Word" "HOL-Library.AList"
begin

section \<open>Trace analysis of distributed flows: pkg/sql/execstats/traceanalyzer.go\<close>

text \<open>
  A shallow embedding of \<^verbatim>\<open>traceanalyzer.go\<close>. Go's \<^verbatim>\<open>int64\<close> and
  \<^verbatim>\<open>time.Duration\<close> are 64-bit words: \<open>+\<close> wraps around and the comparison
  \<^verbatim>\<open>>\<close> of the source is the signed one. A Go map is an association list with
  \<open>map_of\<close> as lookup and \<open>AList.update\<close> as store; the order of the list is the order
  in which a \<^verbatim>\<open>range\<close> loop visits the map, which Go leaves open, so every
  statement below is made for every list. Pointers that the source dereferences
  without a check are taken to be non-nil.
\<close>

subsection \<open>Identifiers and scalars\<close>

type_synonym int64 = "64 word"
type_synonym Duration = "64 word"
type_synonym NodeID = "32 word"
type_synonym FlowID = "128 word"
type_synonym ProcessorID = int
type_synonym StreamID = int

subsection \<open>The statistics bag (execinfrapb.ComponentStats)\<close>

text \<open>
  The optional fields of the bag (\<^verbatim>\<open>optional.Uint\<close>, \<^verbatim>\<open>optional.Duration\<close>) are
  declared outside the files at hand. They are taken as \<open>option\<close> values:
  \<^verbatim>\<open>HasValue()\<close> tells whether the field is \<open>Some\<close>, and \<^verbatim>\<open>Value()\<close> reads it,
  giving 0 for an absent field. The conversion \<^verbatim>\<open>int64(x)\<close> of an unsigned 64-bit
  value keeps its bits, so it is the identity on \<open>64 word\<close>.
\<close>

definition HasValue :: "'a option \<Rightarrow> bool" where
  "HasValue x = (x \<noteq> None)"

definition Value :: "64 word option \<Rightarrow> 64 word" where
  "Value x = (case x of None \<Rightarrow> 0 | Some v \<Rightarrow> v)"

record NetworkRxStats =
  BytesReceived :: "64 word option"
  MessagesReceived :: "64 word option"

record NetworkTxStats =
  BytesSent :: "64 word option"
  MessagesSent :: "64 word option"

record KVStats =
  BytesRead :: "64 word option"
  TuplesRead :: "64 word option"
  KVTime :: "64 word option"
  ContentionTime :: "64 word option"

record FlowStats =
  MaxMemUsage :: "64 word option"

record ComponentStats =
  NetRx :: NetworkRxStats
  NetTx :: NetworkTxStats
  KV :: KVStats
  FlowStats :: FlowStats

subsection \<open>Component references and the physical plan\<close>

datatype ComponentID_Type =
  ComponentID_UNSET | ComponentID_PROCESSOR | ComponentID_STREAM | ComponentID_FLOW

record ComponentID =
  FlowID :: FlowID
  Type :: ComponentID_Type
  ID :: "32 word"
  NodeID :: NodeID

datatype StreamEndpointSpec_Type =
  StreamEndpointSpec_LOCAL | StreamEndpointSpec_REMOTE | StreamEndpointSpec_SYNC_RESPONSE

record StreamEndpointSpec =
  StreamType :: StreamEndpointSpec_Type
  StreamID :: StreamID
  TargetNodeID :: NodeID

record OutputRouterSpec =
  Streams :: "StreamEndpointSpec list"

record ProcessorSpec =
  Output :: "OutputRouterSpec list"
  ProcessorID :: "32 word"

record FlowSpec =
  Processors :: "ProcessorSpec list"

subsection \<open>Errors\<close>

text \<open>
  Every \<^verbatim>\<open>errors.Errorf\<close> of the source is a constructor; \<^verbatim>\<open>errors.Wrap\<close> keeps the
  wrapped error and the message; \<^verbatim>\<open>errors.CombineErrors\<close> returns the other error
  when one is nil and otherwise attaches the second to the first.
\<close>

datatype error =
  UnknownProcessor "32 word"
  | UnknownStream "32 word"
  | UnknownFlow FlowID NodeID
  | BothBytesSet
  | NeitherBytesSet
  | BothMessagesSet
  | NeitherMessagesSet
  | Wrap error string
  | WithSecondaryError error error

fun CombineErrors :: "error option \<Rightarrow> error option \<Rightarrow> error option" where
  "CombineErrors None otherErr = otherErr"
| "CombineErrors (Some err) None = Some err"
| "CombineErrors (Some err) (Some otherErr) = Some (WithSecondaryError err otherErr)"

text \<open>The errors an error value carries, in the order they were combined.\<close>

fun error_parts :: "error \<Rightarrow> error list" where
  "error_parts (WithSecondaryError e1 e2) = error_parts e1 @ error_parts e2"
| "error_parts e = [e]"

fun all_errors :: "error option \<Rightarrow> error list" where
  "all_errors None = []"
| "all_errors (Some e) = error_parts e"

subsection \<open>FlowMetadata\<close>

record processorStats =
  ps_nodeID :: NodeID
  ps_stats :: "ComponentStats option"

record streamStats =
  ss_originNodeID :: NodeID
  ss_destinationNodeID :: NodeID
  ss_stats :: "ComponentStats option"

record flowStats =
  fs_stats :: "ComponentStats list"

record FlowMetadata =
  processorStats :: "(ProcessorID \<times> processorStats) list"
  streamStats :: "(StreamID \<times> streamStats) list"
  flowStats :: "(NodeID \<times> flowStats) list"

subsection \<open>NodeLevelStats and QueryLevelStats\<close>

record NodeLevelStats =
  NetworkBytesSentGroupedByNode :: "(NodeID \<times> int64) list"
  MaxMemoryUsageGroupedByNode :: "(NodeID \<times> int64) list"
  KVBytesReadGroupedByNode :: "(NodeID \<times> int64) list"
  KVRowsReadGroupedByNode :: "(NodeID \<times> int64) list"
  KVTimeGroupedByNode :: "(NodeID \<times> Duration) list"
  NetworkMessagesGroupedByNode :: "(NodeID \<times> int64) list"
  ContentionTimeGroupedByNode :: "(NodeID \<times> Duration) list"

record QueryLevelStats =
  NetworkBytesSent :: int64
  QMaxMemUsage :: int64
  KVBytesRead :: int64
  KVRowsRead :: int64
  QKVTime :: Duration
  NetworkMessages :: int64
  QContentionTime :: Duration

text \<open>
  \<open>QMaxMemUsage\<close>, \<open>QKVTime\<close> and \<open>QContentionTime\<close> are the fields
  \<^verbatim>\<open>MaxMemUsage\<close>, \<^verbatim>\<open>KVTime\<close> and \<^verbatim>\<open>ContentionTime\<close> of
  \<^verbatim>\<open>QueryLevelStats\<close>; the plain names are the fields of the bag.
\<close>

text \<open>\<^verbatim>\<open>func (s *QueryLevelStats) Accumulate(other QueryLevelStats)\<close>\<close>

definition Accumulate :: "QueryLevelStats \<Rightarrow> QueryLevelStats \<Rightarrow> QueryLevelStats" where
  "Accumulate s other =
     \<lparr>NetworkBytesSent = NetworkBytesSent s + NetworkBytesSent other,
      QMaxMemUsage = (if QMaxMemUsage s <s QMaxMemUsage other then QMaxMemUsage other else QMaxMemUsage s),
      KVBytesRead = KVBytesRead s + KVBytesRead other,
      KVRowsRead = KVRowsRead s + KVRowsRead other,
      QKVTime = QKVTime s + QKVTime other,
      NetworkMessages = NetworkMessages s + NetworkMessages other,
      QContentionTime = QContentionTime s + QContentionTime other\<rparr>"

subsection \<open>NewFlowMetadata\<close>

text \<open>
  The three nested \<^verbatim>\<open>range\<close> loops of \<^verbatim>\<open>NewFlowMetadata\<close>, innermost first. The
  conversion \<^verbatim>\<open>execinfrapb.ProcessorID(proc.ProcessorID)\<close> widens a signed 32-bit
  value, which is \<open>sint\<close>.
\<close>

definition NewFlowMetadata_stream :: "NodeID \<Rightarrow> StreamEndpointSpec \<Rightarrow> FlowMetadata \<Rightarrow> FlowMetadata" where
  "NewFlowMetadata_stream nodeID stream a =
     (if StreamType stream = StreamEndpointSpec_REMOTE
      then a\<lparr>streamStats :=
             AList.update (StreamID stream)
               \<lparr>ss_originNodeID = nodeID, ss_destinationNodeID = TargetNodeID stream, ss_stats = None\<rparr>
               (streamStats a)\<rparr>
      else a)"

definition NewFlowMetadata_proc :: "NodeID \<Rightarrow> ProcessorSpec \<Rightarrow> FlowMetadata \<Rightarrow> FlowMetadata" where
  "NewFlowMetadata_proc nodeID proc a =
     fold (\<lambda>output. fold (NewFlowMetadata_stream nodeID) (Streams output)) (Output proc)
       (a\<lparr>processorStats :=
            AList.update (sint (ProcessorID proc)) \<lparr>ps_nodeID = nodeID, ps_stats = None\<rparr>
              (processorStats a)\<rparr>)"

definition NewFlowMetadata_flow :: "NodeID \<times> FlowSpec \<Rightarrow> FlowMetadata \<Rightarrow> FlowMetadata" where
  "NewFlowMetadata_flow nf a =
     fold (NewFlowMetadata_proc (fst nf)) (Processors (snd nf))
       (a\<lparr>flowStats := AList.update (fst nf) \<lparr>fs_stats = []\<rparr> (flowStats a)\<rparr>)"

definition NewFlowMetadata :: "(NodeID \<times> FlowSpec) list \<Rightarrow> FlowMetadata" where
  "NewFlowMetadata flows =
     fold NewFlowMetadata_flow flows \<lparr>processorStats = [], streamStats = [], flowStats = []\<rparr>"

subsection \<open>TraceAnalyzer and AddTrace\<close>

record TraceAnalyzer =
  ta_FlowMetadata :: FlowMetadata
  nodeLevelStats :: NodeLevelStats
  queryLevelStats :: QueryLevelStats

definition MakeTraceAnalyzer :: "FlowMetadata \<Rightarrow> TraceAnalyzer" where
  "MakeTraceAnalyzer flowMetadata =
     \<lparr>ta_FlowMetadata = flowMetadata,
      nodeLevelStats =
        \<lparr>NetworkBytesSentGroupedByNode = [], MaxMemoryUsageGroupedByNode = [],
         KVBytesReadGroupedByNode = [], KVRowsReadGroupedByNode = [], KVTimeGroupedByNode = [],
         NetworkMessagesGroupedByNode = [], ContentionTimeGroupedByNode = []\<rparr>,
      queryLevelStats =
        \<lparr>NetworkBytesSent = 0, QMaxMemUsage = 0, KVBytesRead = 0, KVRowsRead = 0, QKVTime = 0,
         NetworkMessages = 0, QContentionTime = 0\<rparr>\<rparr>"

text \<open>
  The body of the loop of \<^verbatim>\<open>AddTrace\<close> for one entry of the extracted map: the
  \<^verbatim>\<open>switch\<close> on the component's type, which has no default case. \<open>Inl\<close> is the
  \<^verbatim>\<open>return errors.Errorf(...)\<close> of the branch.
\<close>

definition AddTrace_component :: "ComponentID \<times> ComponentStats \<Rightarrow> FlowMetadata \<Rightarrow> error + FlowMetadata" where
  "AddTrace_component cc a =
     (let component = fst cc; componentStats = snd cc in
      case Type component of
        ComponentID_PROCESSOR \<Rightarrow>
          (case map_of (processorStats a) (sint (ID component)) of
             None \<Rightarrow> Inl (UnknownProcessor (ID component))
           | Some pstats \<Rightarrow>
               Inr (a\<lparr>processorStats :=
                        AList.update (sint (ID component)) (pstats\<lparr>ps_stats := Some componentStats\<rparr>)
                          (processorStats a)\<rparr>))
      | ComponentID_STREAM \<Rightarrow>
          (case map_of (streamStats a) (sint (ID component)) of
             None \<Rightarrow> Inl (UnknownStream (ID component))
           | Some sstats \<Rightarrow>
               Inr (a\<lparr>streamStats :=
                        AList.update (sint (ID component)) (sstats\<lparr>ss_stats := Some componentStats\<rparr>)
                          (streamStats a)\<rparr>))
      | ComponentID_FLOW \<Rightarrow>
          (case map_of (flowStats a) (NodeID component) of
             None \<Rightarrow> Inl (UnknownFlow (FlowID component) (NodeID component))
           | Some fstats \<Rightarrow>
               Inr (a\<lparr>flowStats :=
                        AList.update (NodeID component)
                          (fstats\<lparr>fs_stats := fs_stats fstats @ [componentStats]\<rparr>) (flowStats a)\<rparr>))
      | ComponentID_UNSET \<Rightarrow> Inr a)"

fun AddTrace_loop :: "(ComponentID \<times> ComponentStats) list \<Rightarrow> FlowMetadata \<Rightarrow> error option \<times> FlowMetadata" where
  "AddTrace_loop [] a = (None, a)"
| "AddTrace_loop (cc # m) a =
     (case AddTrace_component cc a of
        Inl err \<Rightarrow> (Some err, a)
      | Inr a' \<Rightarrow> AddTrace_loop m a')"

text \<open>
  \<^verbatim>\<open>execinfrapb.ExtractStatsFromSpans\<close> is outside the files at hand: it is a parameter,
  a function from the trace and the flag to the extracted map in the order the loop
  visits it. \<^verbatim>\<open>AddTrace\<close> returns its error and the analyzer, whose topology it has
  populated in place.
\<close>

definition AddTrace ::
  "('span list \<Rightarrow> bool \<Rightarrow> (ComponentID \<times> ComponentStats) list) \<Rightarrow> 'span list \<Rightarrow> bool
     \<Rightarrow> TraceAnalyzer \<Rightarrow> error option \<times> TraceAnalyzer" where
  "AddTrace ExtractStatsFromSpans trace makeDeterministic a =
     (let m = ExtractStatsFromSpans trace makeDeterministic;
          r = AddTrace_loop m (ta_FlowMetadata a)
      in (fst r, a\<lparr>ta_FlowMetadata := snd r\<rparr>))"

subsection \<open>ProcessStats\<close>

text \<open>
  Reading a Go map at a key it does not hold gives the zero value: \<open>lookup0\<close>. So
  \<^verbatim>\<open>m[k] += v\<close> is \<open>add_at\<close>, and
  \<^verbatim>\<open>if v > m[k] { m[k] = v }\<close> is \<open>max_at\<close>, which stores nothing when \<open>v\<close> is not
  larger.
\<close>

definition lookup0 :: "('k \<times> 64 word) list \<Rightarrow> 'k \<Rightarrow> 64 word" where
  "lookup0 m k = (case map_of m k of None \<Rightarrow> 0 | Some v \<Rightarrow> v)"

definition add_at :: "('k \<times> 64 word) list \<Rightarrow> 'k \<Rightarrow> 64 word \<Rightarrow> ('k \<times> 64 word) list" where
  "add_at m k v = AList.update k (lookup0 m k + v) m"

definition max_at :: "('k \<times> 64 word) list \<Rightarrow> 'k \<Rightarrow> 64 word \<Rightarrow> ('k \<times> 64 word) list" where
  "max_at m k v = (if lookup0 m k <s v then AList.update k v m else m)"

definition getNetworkBytesFromComponentStats :: "ComponentStats \<Rightarrow> error + int64" where
  "getNetworkBytesFromComponentStats v =
     (if HasValue (BytesReceived (NetRx v))
      then (if HasValue (BytesSent (NetTx v)) then Inl BothBytesSet
            else Inr (Value (BytesReceived (NetRx v))))
      else if HasValue (BytesSent (NetTx v)) then Inr (Value (BytesSent (NetTx v)))
      else Inl NeitherBytesSet)"

definition getNumNetworkMessagesFromComponentsStats :: "ComponentStats \<Rightarrow> error + int64" where
  "getNumNetworkMessagesFromComponentsStats v =
     (if HasValue (MessagesReceived (NetRx v))
      then (if HasValue (MessagesSent (NetTx v)) then Inl BothMessagesSet
            else Inr (Value (MessagesReceived (NetRx v))))
      else if HasValue (MessagesSent (NetTx v)) then Inr (Value (MessagesSent (NetTx v)))
      else Inl NeitherMessagesSet)"

text \<open>The body of the loop over \<^verbatim>\<open>a.processorStats\<close>.\<close>

definition ProcessStats_processor :: "processorStats \<Rightarrow> NodeLevelStats \<Rightarrow> NodeLevelStats" where
  "ProcessStats_processor stats nls =
     (case ps_stats stats of
        None \<Rightarrow> nls
      | Some cs \<Rightarrow>
          nls\<lparr>KVBytesReadGroupedByNode :=
                add_at (KVBytesReadGroupedByNode nls) (ps_nodeID stats) (Value (BytesRead (KV cs))),
              KVRowsReadGroupedByNode :=
                add_at (KVRowsReadGroupedByNode nls) (ps_nodeID stats) (Value (TuplesRead (KV cs))),
              KVTimeGroupedByNode :=
                add_at (KVTimeGroupedByNode nls) (ps_nodeID stats) (Value (KVTime (KV cs))),
              ContentionTimeGroupedByNode :=
                add_at (ContentionTimeGroupedByNode nls) (ps_nodeID stats)
                  (Value (ContentionTime (KV cs)))\<rparr>)"

text \<open>
  The body of the loop over \<^verbatim>\<open>a.streamStats\<close>, on the node-level stats and the
  combined error \<^verbatim>\<open>errs\<close>: the network bytes, the peak memory of the flow sub-bag,
  the network messages, in the order of the source.
\<close>

definition ProcessStats_stream ::
  "streamStats \<Rightarrow> NodeLevelStats \<times> error option \<Rightarrow> NodeLevelStats \<times> error option" where
  "ProcessStats_stream stats st =
     (case ss_stats stats of
        None \<Rightarrow> st
      | Some cs \<Rightarrow>
          (let nls = fst st; errs = snd st;
               st1 = (case getNetworkBytesFromComponentStats cs of
                        Inl err \<Rightarrow>
                          (nls, CombineErrors errs
                                  (Some (Wrap err ''error calculating network bytes sent'')))
                      | Inr bytes \<Rightarrow>
                          (nls\<lparr>NetworkBytesSentGroupedByNode :=
                                 add_at (NetworkBytesSentGroupedByNode nls) (ss_originNodeID stats) bytes\<rparr>,
                           errs));
               nls1 = fst st1; errs1 = snd st1;
               nls2 = (if HasValue (MaxMemUsage (FlowStats cs))
                       then nls1\<lparr>MaxMemoryUsageGroupedByNode :=
                                   max_at (MaxMemoryUsageGroupedByNode nls1) (ss_originNodeID stats)
                                     (Value (MaxMemUsage (FlowStats cs)))\<rparr>
                       else nls1)
           in case getNumNetworkMessagesFromComponentsStats cs of
                Inl err \<Rightarrow>
                  (nls2, CombineErrors errs1
                           (Some (Wrap err ''error calculating number of network messages'')))
              | Inr numMessages \<Rightarrow>
                  (nls2\<lparr>NetworkMessagesGroupedByNode :=
                          add_at (NetworkMessagesGroupedByNode nls2) (ss_originNodeID stats) numMessages\<rparr>,
                   errs1)))"

text \<open>
  The body of the loop over \<^verbatim>\<open>a.flowStats\<close>; a nil slice is the empty list, and the
  inner loop runs over the bags of the flow slot.
\<close>

definition ProcessStats_flow_bag :: "NodeID \<Rightarrow> ComponentStats \<Rightarrow> NodeLevelStats \<Rightarrow> NodeLevelStats" where
  "ProcessStats_flow_bag nodeID v nls =
     (if HasValue (MaxMemUsage (FlowStats v))
      then nls\<lparr>MaxMemoryUsageGroupedByNode :=
                 max_at (MaxMemoryUsageGroupedByNode nls) nodeID (Value (MaxMemUsage (FlowStats v)))\<rparr>
      else nls)"

definition ProcessStats_flow :: "NodeID \<times> flowStats \<Rightarrow> NodeLevelStats \<Rightarrow> NodeLevelStats" where
  "ProcessStats_flow nf nls =
     (if fs_stats (snd nf) = [] then nls
      else fold (ProcessStats_flow_bag (fst nf)) (fs_stats (snd nf)) nls)"

text \<open>
  The query-level part of \<^verbatim>\<open>ProcessStats\<close>: seven loops over the node-level maps.
  The composite literal of the source leaves \<^verbatim>\<open>ContentionTime\<close> out, so it starts at
  its zero value, and the last loop of the source ranges over \<^verbatim>\<open>KVTimeGroupedByNode\<close>.
\<close>

definition ProcessStats_query :: "NodeLevelStats \<Rightarrow> QueryLevelStats" where
  "ProcessStats_query nls =
     \<lparr>NetworkBytesSent =
        fold (\<lambda>kv acc. acc + snd kv) (NetworkBytesSentGroupedByNode nls) 0,
      QMaxMemUsage =
        fold (\<lambda>kv acc. if acc <s snd kv then snd kv else acc) (MaxMemoryUsageGroupedByNode nls) 0,
      KVBytesRead = fold (\<lambda>kv acc. acc + snd kv) (KVBytesReadGroupedByNode nls) 0,
      KVRowsRead = fold (\<lambda>kv acc. acc + snd kv) (KVRowsReadGroupedByNode nls) 0,
      QKVTime = fold (\<lambda>kv acc. acc + snd kv) (KVTimeGroupedByNode nls) 0,
      NetworkMessages = fold (\<lambda>kv acc. acc + snd kv) (NetworkMessagesGroupedByNode nls) 0,
      QContentionTime = fold (\<lambda>kv acc. acc + snd kv) (KVTimeGroupedByNode nls) 0\<rparr>"

definition ProcessStats_node :: "FlowMetadata \<Rightarrow> NodeLevelStats \<times> error option" where
  "ProcessStats_node md =
     (let nls0 = \<lparr>NetworkBytesSentGroupedByNode = [], MaxMemoryUsageGroupedByNode = [],
                  KVBytesReadGroupedByNode = [], KVRowsReadGroupedByNode = [],
                  KVTimeGroupedByNode = [], NetworkMessagesGroupedByNode = [],
                  ContentionTimeGroupedByNode = []\<rparr>;
          nls1 = fold ProcessStats_processor (map snd (processorStats md)) nls0;
          st2 = fold ProcessStats_stream (map snd (streamStats md)) (nls1, None)
      in (fold ProcessStats_flow (flowStats md) (fst st2), snd st2))"

definition ProcessStats :: "TraceAnalyzer \<Rightarrow> error option \<times> TraceAnalyzer" where
  "ProcessStats a =
     (let r = ProcessStats_node (ta_FlowMetadata a)
      in (snd r, a\<lparr>nodeLevelStats := fst r, queryLevelStats := ProcessStats_query (fst r)\<rparr>))"

definition GetNodeLevelStats :: "TraceAnalyzer \<Rightarrow> NodeLevelStats" where
  "GetNodeLevelStats a = nodeLevelStats a"

text \<open>The method \<^verbatim>\<open>(a *TraceAnalyzer) GetQueryLevelStats()\<close>.\<close>

definition TraceAnalyzer_GetQueryLevelStats :: "TraceAnalyzer \<Rightarrow> QueryLevelStats" where
  "TraceAnalyzer_GetQueryLevelStats a = queryLevelStats a"

subsection \<open>The driver GetQueryLevelStats\<close>



section \<open>Vocabulary of the statements\<close>

text \<open>
  The definitions of this section are not in the source. They name what the
  statements speak about: the bags a node owns, the contributions a loop of
  \<^verbatim>\<open>ProcessStats\<close> adds up, the plan as \<^verbatim>\<open>NewFlowMetadata\<close> visits it, and what the
  driver makes of one topology. The last subsection holds the concrete inputs on
  which the statements are evaluated.
\<close>

subsection \<open>The bags of a node\<close>

text \<open>The bags that are present on the processors owned by node \<open>n\<close>.\<close>

definition processor_bags :: "FlowMetadata \<Rightarrow> NodeID \<Rightarrow> ComponentStats list" where
  "processor_bags md n =
     List.map_filter (\<lambda>ps. if ps_nodeID ps = n then ps_stats ps else None) (map snd (processorStats md))"

text \<open>The bags that are present on the streams that originate at node \<open>n\<close>.\<close>

definition stream_bags :: "FlowMetadata \<Rightarrow> NodeID \<Rightarrow> ComponentStats list" where
  "stream_bags md n =
     List.map_filter (\<lambda>ss. if ss_originNodeID ss = n then ss_stats ss else None) (map snd (streamStats md))"

text \<open>The entries of the flow-slot list of node \<open>n\<close>.\<close>

definition flow_bags :: "FlowMetadata \<Rightarrow> NodeID \<Rightarrow> ComponentStats list" where
  "flow_bags md n = concat (map (\<lambda>nf. if fst nf = n then fs_stats (snd nf) else []) (flowStats md))"

text \<open>The value of the one field that is present, when exactly one of the two is.\<close>

definition exactly_one :: "'a option \<Rightarrow> 'a option \<Rightarrow> 'a option" where
  "exactly_one x y = (case x of None \<Rightarrow> y | Some v \<Rightarrow> (case y of None \<Rightarrow> Some v | Some w \<Rightarrow> None))"

text \<open>What a stream bag contributes to each of the three stream-sourced metrics, if anything.\<close>

definition bytes_of :: "ComponentStats \<Rightarrow> int64 option" where
  "bytes_of cs = (case getNetworkBytesFromComponentStats cs of Inl err \<Rightarrow> None | Inr v \<Rightarrow> Some v)"

definition messages_of :: "ComponentStats \<Rightarrow> int64 option" where
  "messages_of cs = (case getNumNetworkMessagesFromComponentsStats cs of Inl err \<Rightarrow> None | Inr v \<Rightarrow> Some v)"

definition peak_of :: "ComponentStats \<Rightarrow> int64 option" where
  "peak_of cs = MaxMemUsage (FlowStats cs)"

text \<open>
  Every present peak-memory value of node \<open>n\<close>, from both sources: the flow sub-bags
  of the streams that originate at \<open>n\<close>, then the entries of its flow slot.
\<close>

definition node_peaks :: "FlowMetadata \<Rightarrow> NodeID \<Rightarrow> int64 list" where
  "node_peaks md n = List.map_filter peak_of (stream_bags md n @ flow_bags md n)"

text \<open>
  The errors one stream records, at most one for its bytes and one for its messages:
  first as the two helper functions of the source return them, then as the
  exclusivity rule says them.
\<close>

definition stream_errors :: "streamStats \<Rightarrow> error list" where
  "stream_errors stats =
     (case ss_stats stats of
        None \<Rightarrow> []
      | Some cs \<Rightarrow>
          (case getNetworkBytesFromComponentStats cs of
             Inl err \<Rightarrow> [Wrap err ''error calculating network bytes sent'']
           | Inr v \<Rightarrow> []) @
          (case getNumNetworkMessagesFromComponentsStats cs of
             Inl err \<Rightarrow> [Wrap err ''error calculating number of network messages'']
           | Inr v \<Rightarrow> []))"

definition exclusivity_errors :: "ComponentStats \<Rightarrow> error list" where
  "exclusivity_errors cs =
     (if exactly_one (BytesReceived (NetRx cs)) (BytesSent (NetTx cs)) \<noteq> None then []
      else [Wrap (if BytesReceived (NetRx cs) = None then NeitherBytesSet else BothBytesSet)
              ''error calculating network bytes sent'']) @
     (if exactly_one (MessagesReceived (NetRx cs)) (MessagesSent (NetTx cs)) \<noteq> None then []
      else [Wrap (if MessagesReceived (NetRx cs) = None then NeitherMessagesSet else BothMessagesSet)
              ''error calculating number of network messages''])"

subsection \<open>Keyed contributions\<close>

text \<open>
  The keyed contributions of a list of components: the component's node with the
  value \<open>g\<close> finds in its bag, for the components that have a bag and a value; and
  those of the flow slots. \<open>add_all\<close> and \<open>max_all\<close> add, and max-reduce, a list of
  keyed contributions into a map; \<open>update_all\<close> stores one.
\<close>

definition entries :: "('x \<Rightarrow> 'k) \<Rightarrow> ('x \<Rightarrow> 'b option) \<Rightarrow> ('b \<Rightarrow> 'v option) \<Rightarrow> 'x list \<Rightarrow> ('k \<times> 'v) list" where
  "entries key bag g xs =
     List.map_filter (\<lambda>x. Option.bind (bag x) (\<lambda>cs. map_option (\<lambda>v. (key x, v)) (g cs))) xs"

definition flow_entries :: "(NodeID \<times> flowStats) list \<Rightarrow> (NodeID \<times> int64) list" where
  "flow_entries fl =
     concat (map (\<lambda>nf. map (\<lambda>v. (fst nf, v)) (List.map_filter peak_of (fs_stats (snd nf)))) fl)"

definition add_all :: "('k \<times> 64 word) list \<Rightarrow> ('k \<times> 64 word) list \<Rightarrow> ('k \<times> 64 word) list" where
  "add_all kvs m = fold (\<lambda>kv m. add_at m (fst kv) (snd kv)) kvs m"

definition max_all :: "('k \<times> 64 word) list \<Rightarrow> ('k \<times> 64 word) list \<Rightarrow> ('k \<times> 64 word) list" where
  "max_all kvs m = fold (\<lambda>kv m. max_at m (fst kv) (snd kv)) kvs m"

definition update_all :: "('k \<times> 'v) list \<Rightarrow> ('k \<times> 'v) list \<Rightarrow> ('k \<times> 'v) list" where
  "update_all kvs m = fold (\<lambda>kv m. AList.update (fst kv) (snd kv) m) kvs m"

subsection \<open>The plan, flattened\<close>

text \<open>
  The processors of a plan with the node that hosts them, and its remote streams with
  the node of the processor they leave, in the order \<^verbatim>\<open>NewFlowMetadata\<close> visits them;
  and the identity registered for each.
\<close>

definition plan_processors :: "(NodeID \<times> FlowSpec) list \<Rightarrow> (NodeID \<times> ProcessorSpec) list" where
  "plan_processors flows = concat (map (\<lambda>nf. map (\<lambda>p. (fst nf, p)) (Processors (snd nf))) flows)"

definition plan_remote_streams :: "(NodeID \<times> FlowSpec) list \<Rightarrow> (NodeID \<times> StreamEndpointSpec) list" where
  "plan_remote_streams flows =
     concat (map (\<lambda>np. map (\<lambda>s. (fst np, s))
                          (filter (\<lambda>s. StreamType s = StreamEndpointSpec_REMOTE)
                             (concat (map Streams (Output (snd np))))))
               (plan_processors flows))"

definition processor_identity :: "NodeID \<times> ProcessorSpec \<Rightarrow> ProcessorID \<times> processorStats" where
  "processor_identity np = (sint (ProcessorID (snd np)), \<lparr>ps_nodeID = fst np, ps_stats = None\<rparr>)"

definition stream_identity :: "NodeID \<times> StreamEndpointSpec \<Rightarrow> StreamID \<times> streamStats" where
  "stream_identity ns =
     (StreamID (snd ns),
      \<lparr>ss_originNodeID = fst ns, ss_destinationNodeID = TargetNodeID (snd ns), ss_stats = None\<rparr>)"

definition flow_slot :: "NodeID \<times> FlowSpec \<Rightarrow> NodeID \<times> flowStats" where
  "flow_slot nf = (fst nf, \<lparr>fs_stats = []\<rparr>)"

subsection \<open>References into a topology\<close>

text \<open>
  A component reference is unknown to a topology when it names a processor, a stream
  or the flow of a node that the topology does not hold.
\<close>

definition unknown_component :: "FlowMetadata \<Rightarrow> ComponentID \<Rightarrow> bool" where
  "unknown_component md c =
     (case Type c of
        ComponentID_PROCESSOR \<Rightarrow> map_of (processorStats md) (sint (ID c)) = None
      | ComponentID_STREAM \<Rightarrow> map_of (streamStats md) (sint (ID c)) = None
      | ComponentID_FLOW \<Rightarrow> map_of (flowStats md) (NodeID c) = None
      | ComponentID_UNSET \<Rightarrow> False)"

text \<open>
  What a call of \<^verbatim>\<open>AddTrace\<close> on the extracted map \<open>m\<close> does, said without its
  loop. The entries it applies are those before the first one that references
  something the topology does not hold; the error it returns is the one for that
  entry, if there is one.
\<close>

definition applied_entries :: "FlowMetadata \<Rightarrow> (ComponentID \<times> ComponentStats) list \<Rightarrow> (ComponentID \<times> ComponentStats) list" where
  "applied_entries md m = takeWhile (\<lambda>cc. \<not> unknown_component md (fst cc)) m"

definition unknown_error :: "ComponentID \<Rightarrow> error option" where
  "unknown_error c =
     (case Type c of
        ComponentID_PROCESSOR \<Rightarrow> Some (UnknownProcessor (ID c))
      | ComponentID_STREAM \<Rightarrow> Some (UnknownStream (ID c))
      | ComponentID_FLOW \<Rightarrow> Some (UnknownFlow (FlowID c) (NodeID c))
      | ComponentID_UNSET \<Rightarrow> None)"

definition first_failure :: "FlowMetadata \<Rightarrow> (ComponentID \<times> ComponentStats) list \<Rightarrow> error option" where
  "first_failure md m =
     (case dropWhile (\<lambda>cc. \<not> unknown_component md (fst cc)) m of
        [] \<Rightarrow> None
      | cc # rest \<Rightarrow> unknown_error (fst cc))"

text \<open>
  The bag that a list of entries leaves on the processor (or the stream) of id \<open>k\<close>:
  the bag of the last entry that references it, if any. The bags it adds to the
  flow slot of node \<open>n\<close>: those of the entries that reference the flow of \<open>n\<close>, in
  order. \<open>attach_processor\<close> and \<open>attach_stream\<close> put such a bag, if there is one, on
  an identity.
\<close>

definition attached :: "ComponentID_Type \<Rightarrow> (ComponentID \<times> ComponentStats) list \<Rightarrow> int \<Rightarrow> ComponentStats option" where
  "attached t m k =
     (case filter (\<lambda>cc. Type (fst cc) = t \<and> sint (ID (fst cc)) = k) m of
        [] \<Rightarrow> None
      | x # xs \<Rightarrow> Some (snd (last (x # xs))))"

definition appended :: "(ComponentID \<times> ComponentStats) list \<Rightarrow> NodeID \<Rightarrow> ComponentStats list" where
  "appended m n =
     map snd (filter (\<lambda>cc. Type (fst cc) = ComponentID_FLOW \<and> NodeID (fst cc) = n) m)"

definition attach_processor :: "ComponentStats option \<Rightarrow> processorStats \<Rightarrow> processorStats" where
  "attach_processor b ps = (case b of None \<Rightarrow> ps | Some bag \<Rightarrow> ps\<lparr>ps_stats := Some bag\<rparr>)"

definition attach_stream :: "ComponentStats option \<Rightarrow> streamStats \<Rightarrow> streamStats" where
  "attach_stream b ss = (case b of None \<Rightarrow> ss | Some bag \<Rightarrow> ss\<lparr>ss_stats := Some bag\<rparr>)"

subsection \<open>The outcome of one topology in the driver\<close>





subsection \<open>Concrete inputs\<close>

text \<open>
  Bags: \<open>bag0\<close> has no field; \<open>ex_kv b\<close> has the key-value fields, with \<open>b\<close> bytes
  read; \<open>ex_net\<close> has the two byte counts, the two message counts and the peak, each
  present or not.
\<close>

definition bag0 :: ComponentStats where
  "bag0 =
     \<lparr>NetRx = \<lparr>BytesReceived = None, MessagesReceived = None\<rparr>,
      NetTx = \<lparr>BytesSent = None, MessagesSent = None\<rparr>,
      KV = \<lparr>BytesRead = None, TuplesRead = None, KVTime = None, ContentionTime = None\<rparr>,
      FlowStats = \<lparr>MaxMemUsage = None\<rparr>\<rparr>"

definition ex_kv :: "64 word \<Rightarrow> ComponentStats" where
  "ex_kv b =
     bag0\<lparr>KV := \<lparr>BytesRead = Some b, TuplesRead = Some 1, KVTime = Some 7, ContentionTime = Some 5\<rparr>\<rparr>"

definition ex_net ::
  "64 word option \<Rightarrow> 64 word option \<Rightarrow> 64 word option \<Rightarrow> 64 word option \<Rightarrow> 64 word option
     \<Rightarrow> ComponentStats" where
  "ex_net brx btx mrx mtx peak =
     bag0\<lparr>NetRx := \<lparr>BytesReceived = brx, MessagesReceived = mrx\<rparr>,
          NetTx := \<lparr>BytesSent = btx, MessagesSent = mtx\<rparr>,
          FlowStats := \<lparr>MaxMemUsage = peak\<rparr>\<rparr>"

text \<open>
  A topology with its bags attached. Node 1 owns three processors (kv-bytes-read 10
  and 15; the third has no bag) and is the origin of two streams: stream 1 sends 40
  bytes in 4 messages and carries a peak of 50; stream 2 has both byte counts and
  received 3 messages. Stream 3, from node 2, has a bag with no field. The flow slot
  of node 1 holds one bag with a peak of 80.
\<close>

definition ex_md :: FlowMetadata where
  "ex_md =
     \<lparr>processorStats =
        [(1, \<lparr>ps_nodeID = 1, ps_stats = Some (ex_kv 10)\<rparr>),
         (2, \<lparr>ps_nodeID = 1, ps_stats = Some (ex_kv 15)\<rparr>),
         (3, \<lparr>ps_nodeID = 1, ps_stats = None\<rparr>)],
      streamStats =
        [(1, \<lparr>ss_originNodeID = 1, ss_destinationNodeID = 2,
              ss_stats = Some (ex_net None (Some 40) None (Some 4) (Some 50))\<rparr>),
         (2, \<lparr>ss_originNodeID = 1, ss_destinationNodeID = 2,
              ss_stats = Some (ex_net (Some 5) (Some 6) (Some 3) None None)\<rparr>),
         (3, \<lparr>ss_originNodeID = 2, ss_destinationNodeID = 1,
              ss_stats = Some (ex_net None None None None None)\<rparr>)],
      flowStats =
        [(1, \<lparr>fs_stats = [ex_net None None None None (Some 80)]\<rparr>),
         (2, \<lparr>fs_stats = []\<rparr>)]\<rparr>"

text \<open>A topology whose only bag is on a stream of node 1, with a peak of \<open>2 ^ 63\<close>.\<close>

definition ex_huge_md :: FlowMetadata where
  "ex_huge_md =
     \<lparr>processorStats = [],
      streamStats =
        [(1, \<lparr>ss_originNodeID = 1, ss_destinationNodeID = 2,
              ss_stats = Some (ex_net None (Some 40) None (Some 4) (Some 9223372036854775808))\<rparr>)],
      flowStats = [(1, \<lparr>fs_stats = []\<rparr>), (2, \<lparr>fs_stats = []\<rparr>)]\<rparr>"

text \<open>
  Three streams from node 1 and a flow slot with a peak of 80: stream 1 sends 40
  bytes in 4 messages and carries a peak of 50; stream 2 has both byte counts, a
  message count of 3 and a peak of 90; stream 3 sends 8 bytes and has both message
  counts.
\<close>

definition ex_good_stream :: streamStats where
  "ex_good_stream =
     \<lparr>ss_originNodeID = 1, ss_destinationNodeID = 2,
      ss_stats = Some (ex_net None (Some 40) None (Some 4) (Some 50))\<rparr>"

definition ex_bad_bytes_stream :: streamStats where
  "ex_bad_bytes_stream =
     \<lparr>ss_originNodeID = 1, ss_destinationNodeID = 2,
      ss_stats = Some (ex_net (Some 5) (Some 6) (Some 3) None (Some 90))\<rparr>"

definition ex_bad_messages_stream :: streamStats where
  "ex_bad_messages_stream =
     \<lparr>ss_originNodeID = 1, ss_destinationNodeID = 2,
      ss_stats = Some (ex_net None (Some 8) (Some 2) (Some 2) None)\<rparr>"

definition ex_md2 :: FlowMetadata where
  "ex_md2 =
     \<lparr>processorStats = [],
      streamStats = [(1, ex_good_stream), (2, ex_bad_bytes_stream), (3, ex_bad_messages_stream)],
      flowStats = [(1, \<lparr>fs_stats = [ex_net None None None None (Some 80)]\<rparr>)]\<rparr>"

text \<open>
  A plan of two nodes: node 1 hosts processor 1, whose output has the remote stream 1
  to node 2 and the local stream 2; node 2 hosts processor 2. And a plan in which the
  two nodes each host a processor with the id 7.
\<close>

definition ex_plan :: "(NodeID \<times> FlowSpec) list" where
  "ex_plan =
     [(1, \<lparr>Processors =
             [\<lparr>Output =
                 [\<lparr>Streams =
                     [\<lparr>StreamType = StreamEndpointSpec_REMOTE, StreamID = 1, TargetNodeID = 2\<rparr>,
                      \<lparr>StreamType = StreamEndpointSpec_LOCAL, StreamID = 2, TargetNodeID = 0\<rparr>]\<rparr>],
               ProcessorID = 1\<rparr>]\<rparr>),
      (2, \<lparr>Processors = [\<lparr>Output = [], ProcessorID = 2\<rparr>]\<rparr>)]"

definition ex_dup_plan :: "(NodeID \<times> FlowSpec) list" where
  "ex_dup_plan =
     [(1, \<lparr>Processors = [\<lparr>Output = [], ProcessorID = 7\<rparr>]\<rparr>),
      (2, \<lparr>Processors = [\<lparr>Output = [], ProcessorID = 7\<rparr>]\<rparr>)]"

text \<open>
  The topology of \<open>ex_plan\<close>, and an extracted map of three entries: a bag for
  processor 1, a bag for a stream 9 that the topology does not hold, a bag for
  processor 2. \<open>ex_topology2\<close> also holds stream 9, so every entry of the map finds
  its component, and \<open>ex_scalar\<close> is the scalar of that topology. \<open>ex_topology3\<close> is
  \<open>ex_topology2\<close> with a bag already on stream 1 that has both byte counts.
\<close>

definition ex_topology :: FlowMetadata where
  "ex_topology =
     \<lparr>processorStats = [(1, \<lparr>ps_nodeID = 1, ps_stats = None\<rparr>), (2, \<lparr>ps_nodeID = 2, ps_stats = None\<rparr>)],
      streamStats = [(1, \<lparr>ss_originNodeID = 1, ss_destinationNodeID = 2, ss_stats = None\<rparr>)],
      flowStats = [(1, \<lparr>fs_stats = []\<rparr>), (2, \<lparr>fs_stats = []\<rparr>)]\<rparr>"

definition ex_trace_map :: "(ComponentID \<times> ComponentStats) list" where
  "ex_trace_map =
     [(\<lparr>FlowID = 0, Type = ComponentID_PROCESSOR, ID = 1, NodeID = 1\<rparr>, ex_kv 100),
      (\<lparr>FlowID = 0, Type = ComponentID_STREAM, ID = 9, NodeID = 1\<rparr>,
         ex_net None (Some 40) None (Some 4) None),
      (\<lparr>FlowID = 0, Type = ComponentID_PROCESSOR, ID = 2, NodeID = 2\<rparr>, ex_kv 15)]"

definition ex_topology2 :: FlowMetadata where
  "ex_topology2 =
     ex_topology\<lparr>streamStats :=
       [(1, \<lparr>ss_originNodeID = 1, ss_destinationNodeID = 2, ss_stats = None\<rparr>),
        (9, \<lparr>ss_originNodeID = 1, ss_destinationNodeID = 2, ss_stats = None\<rparr>)]\<rparr>"

definition ex_topology3 :: FlowMetadata where
  "ex_topology3 =
     ex_topology\<lparr>streamStats :=
       [(1, \<lparr>ss_originNodeID = 1, ss_destinationNodeID = 2,
             ss_stats = Some (ex_net (Some 5) (Some 6) (Some 3) None None)\<rparr>),
        (9, \<lparr>ss_originNodeID = 1, ss_destinationNodeID = 2, ss_stats = None\<rparr>)]\<rparr>"


text \<open>
  An extracted map in which two entries reference processor 1 (their node ids
  differ, so they are two keys of the map) and two reference the flow of node 1.
\<close>

definition ex_trace_map2 :: "(ComponentID \<times> ComponentStats) list" where
  "ex_trace_map2 =
     [(\<lparr>FlowID = 0, Type = ComponentID_PROCESSOR, ID = 1, NodeID = 1\<rparr>, ex_kv 10),
      (\<lparr>FlowID = 0, Type = ComponentID_FLOW, ID = 0, NodeID = 1\<rparr>,
         ex_net None None None None (Some 80)),
      (\<lparr>FlowID = 0, Type = ComponentID_PROCESSOR, ID = 1, NodeID = 2\<rparr>, ex_kv 15),
      (\<lparr>FlowID = 1, Type = ComponentID_FLOW, ID = 0, NodeID = 1\<rparr>,
         ex_net None None None None (Some 70))]"

section \<open>Lemmas\<close>

subsection \<open>Maps read with a zero default\<close>

lemma lookup0_update: "lookup0 (AList.update k v m) n = (if n = k then v else lookup0 m n)"
  by (simp add: lookup0_def update_conv')

lemma lookup0_add_at: "lookup0 (add_at m k v) n = (if n = k then lookup0 m k + v else lookup0 m n)"
  by (simp add: add_at_def lookup0_update)

lemma keys_add_at: "fst ` set (add_at m k v) = insert k (fst ` set m)"
  by (simp add: add_at_def dom_update)

lemma distinct_add_at: "distinct (map fst m) \<Longrightarrow> distinct (map fst (add_at m k v))"
  by (simp add: add_at_def distinct_update)

lemma add_all_Nil: "add_all [] m = m"
  by (simp add: add_all_def)

lemma add_all_Cons: "add_all (kv # kvs) m = add_all kvs (add_at m (fst kv) (snd kv))"
  by (simp add: add_all_def)

lemma lookup0_add_all:
  "lookup0 (add_all kvs m) n = lookup0 m n + sum_list (map snd (filter (\<lambda>kv. fst kv = n) kvs))"
  by (induction kvs arbitrary: m) (simp_all add: add_all_Nil add_all_Cons lookup0_add_at)

lemma keys_add_all: "fst ` set (add_all kvs m) = fst ` set m \<union> fst ` set kvs"
  by (induction kvs arbitrary: m) (auto simp add: add_all_Nil add_all_Cons keys_add_at)

lemma distinct_add_all: "distinct (map fst m) \<Longrightarrow> distinct (map fst (add_all kvs m))"
  by (induction kvs arbitrary: m) (simp_all add: add_all_Nil add_all_Cons distinct_add_at)

lemma lookup0_max_at:
  "sint (lookup0 (max_at m k v) n) = (if n = k then max (sint (lookup0 m k)) (sint v) else sint (lookup0 m n))"
  by (simp add: max_at_def lookup0_update word_sless_alt max_def)

lemma keys_max_at: "fst ` set (max_at m k v) = (if lookup0 m k <s v then insert k (fst ` set m) else fst ` set m)"
  by (simp add: max_at_def dom_update)

lemma distinct_max_at: "distinct (map fst m) \<Longrightarrow> distinct (map fst (max_at m k v))"
  by (simp add: max_at_def distinct_update)

lemma max_all_Nil: "max_all [] m = m"
  by (simp add: max_all_def)

lemma max_all_Cons: "max_all (kv # kvs) m = max_all kvs (max_at m (fst kv) (snd kv))"
  by (simp add: max_all_def)

lemma Max_insert_max:
  "finite S \<Longrightarrow> Max (insert (max (a::int) b) S) = Max (insert a (insert b S))"
  by (cases "S = {}") (simp_all add: max.assoc)

lemma lookup0_max_all:
  "sint (lookup0 (max_all kvs m) n) =
     Max (insert (sint (lookup0 m n)) (sint ` set (map snd (filter (\<lambda>kv. fst kv = n) kvs))))"
proof (induction kvs arbitrary: m)
  case Nil
  then show ?case by (simp add: max_all_Nil)
next
  case (Cons kv kvs)
  show ?case
  proof (cases "fst kv = n")
    case True
    then show ?thesis
      using Cons.IH [of "max_at m (fst kv) (snd kv)"]
      by (simp add: max_all_Cons lookup0_max_at Max_insert_max)
  next
    case False
    then show ?thesis
      using Cons.IH [of "max_at m (fst kv) (snd kv)"]
      by (simp add: max_all_Cons lookup0_max_at)
  qed
qed

lemma distinct_max_all: "distinct (map fst m) \<Longrightarrow> distinct (map fst (max_all kvs m))"
  by (induction kvs arbitrary: m) (simp_all add: max_all_Nil max_all_Cons distinct_max_at)

subsection \<open>Keyed contributions\<close>

lemma entries_Nil: "entries key bag g [] = []"
  by (simp add: entries_def List.map_filter_simps)

lemma entries_Cons:
  "entries key bag g (x # xs) =
     (case bag x of None \<Rightarrow> entries key bag g xs
      | Some cs \<Rightarrow> (case g cs of None \<Rightarrow> entries key bag g xs
                    | Some v \<Rightarrow> (key x, v) # entries key bag g xs))"
  by (simp add: entries_def List.map_filter_simps split: option.splits)

lemma entries_at:
  "map snd (filter (\<lambda>kv. fst kv = n) (entries key bag g xs)) =
     List.map_filter g (List.map_filter (\<lambda>x. if key x = n then bag x else None) xs)"
  by (induction xs) (simp_all add: entries_Nil entries_Cons List.map_filter_simps split: option.splits)

subsection \<open>The loops of ProcessStats, field by field\<close>

lemma proc_fold_KVBytesRead:
  "KVBytesReadGroupedByNode (fold ProcessStats_processor xs nls) =
     add_all (entries ps_nodeID ps_stats (\<lambda>cs. Some (Value (BytesRead (KV cs)))) xs)
       (KVBytesReadGroupedByNode nls)"
  by (induction xs arbitrary: nls)
    (simp_all add: entries_Nil entries_Cons add_all_Nil add_all_Cons ProcessStats_processor_def
      split: option.splits)

lemma proc_fold_KVRowsRead:
  "KVRowsReadGroupedByNode (fold ProcessStats_processor xs nls) =
     add_all (entries ps_nodeID ps_stats (\<lambda>cs. Some (Value (TuplesRead (KV cs)))) xs)
       (KVRowsReadGroupedByNode nls)"
  by (induction xs arbitrary: nls)
    (simp_all add: entries_Nil entries_Cons add_all_Nil add_all_Cons ProcessStats_processor_def
      split: option.splits)

lemma proc_fold_KVTime:
  "KVTimeGroupedByNode (fold ProcessStats_processor xs nls) =
     add_all (entries ps_nodeID ps_stats (\<lambda>cs. Some (Value (KVTime (KV cs)))) xs)
       (KVTimeGroupedByNode nls)"
  by (induction xs arbitrary: nls)
    (simp_all add: entries_Nil entries_Cons add_all_Nil add_all_Cons ProcessStats_processor_def
      split: option.splits)

lemma proc_fold_ContentionTime:
  "ContentionTimeGroupedByNode (fold ProcessStats_processor xs nls) =
     add_all (entries ps_nodeID ps_stats (\<lambda>cs. Some (Value (ContentionTime (KV cs)))) xs)
       (ContentionTimeGroupedByNode nls)"
  by (induction xs arbitrary: nls)
    (simp_all add: entries_Nil entries_Cons add_all_Nil add_all_Cons ProcessStats_processor_def
      split: option.splits)

lemma proc_fold_others:
  "NetworkBytesSentGroupedByNode (fold ProcessStats_processor xs nls) = NetworkBytesSentGroupedByNode nls
   \<and> MaxMemoryUsageGroupedByNode (fold ProcessStats_processor xs nls) = MaxMemoryUsageGroupedByNode nls
   \<and> NetworkMessagesGroupedByNode (fold ProcessStats_processor xs nls) = NetworkMessagesGroupedByNode nls"
  by (induction xs arbitrary: nls) (simp_all add: ProcessStats_processor_def split: option.splits)

lemma stream_fold_bytes:
  "NetworkBytesSentGroupedByNode (fst (fold ProcessStats_stream xs st)) =
     add_all (entries ss_originNodeID ss_stats bytes_of xs) (NetworkBytesSentGroupedByNode (fst st))"
  by (induction xs arbitrary: st)
    (simp_all add: entries_Nil entries_Cons add_all_Nil add_all_Cons ProcessStats_stream_def
      bytes_of_def Let_def split: option.splits sum.splits)

lemma stream_fold_messages:
  "NetworkMessagesGroupedByNode (fst (fold ProcessStats_stream xs st)) =
     add_all (entries ss_originNodeID ss_stats messages_of xs) (NetworkMessagesGroupedByNode (fst st))"
  by (induction xs arbitrary: st)
    (simp_all add: entries_Nil entries_Cons add_all_Nil add_all_Cons ProcessStats_stream_def
      messages_of_def Let_def split: option.splits sum.splits)

lemma stream_fold_peak:
  "MaxMemoryUsageGroupedByNode (fst (fold ProcessStats_stream xs st)) =
     max_all (entries ss_originNodeID ss_stats peak_of xs) (MaxMemoryUsageGroupedByNode (fst st))"
  by (induction xs arbitrary: st)
    (simp_all add: entries_Nil entries_Cons max_all_Nil max_all_Cons ProcessStats_stream_def
      peak_of_def HasValue_def Value_def Let_def split: option.splits sum.splits)

lemma stream_fold_others:
  "KVBytesReadGroupedByNode (fst (fold ProcessStats_stream xs st)) = KVBytesReadGroupedByNode (fst st)
   \<and> KVRowsReadGroupedByNode (fst (fold ProcessStats_stream xs st)) = KVRowsReadGroupedByNode (fst st)
   \<and> KVTimeGroupedByNode (fst (fold ProcessStats_stream xs st)) = KVTimeGroupedByNode (fst st)
   \<and> ContentionTimeGroupedByNode (fst (fold ProcessStats_stream xs st)) = ContentionTimeGroupedByNode (fst st)"
  by (induction xs arbitrary: st)
    (simp_all add: ProcessStats_stream_def Let_def split: option.splits sum.splits)

lemma all_errors_CombineErrors: "all_errors (CombineErrors a b) = all_errors a @ all_errors b"
  by (cases a; cases b) simp_all

lemma stream_fold_errors:
  "all_errors (snd (fold ProcessStats_stream xs st)) = all_errors (snd st) @ concat (map stream_errors xs)"
  by (induction xs arbitrary: st)
    (simp_all add: ProcessStats_stream_def stream_errors_def all_errors_CombineErrors Let_def
      split: option.splits sum.splits)

lemma flow_bag_fold_peak:
  "MaxMemoryUsageGroupedByNode (fold (ProcessStats_flow_bag n) vs nls) =
     max_all (map (\<lambda>v. (n, v)) (List.map_filter peak_of vs)) (MaxMemoryUsageGroupedByNode nls)"
  by (induction vs arbitrary: nls)
    (simp_all add: max_all_Nil max_all_Cons ProcessStats_flow_bag_def peak_of_def HasValue_def
      Value_def split: option.splits)

lemma max_all_append: "max_all (xs @ ys) m = max_all ys (max_all xs m)"
  by (simp add: max_all_def)

lemma flow_fold_peak:
  "MaxMemoryUsageGroupedByNode (fold ProcessStats_flow fl nls) =
     max_all (flow_entries fl) (MaxMemoryUsageGroupedByNode nls)"
  by (induction fl arbitrary: nls)
    (simp_all add: flow_entries_def max_all_Nil max_all_append ProcessStats_flow_def flow_bag_fold_peak)

lemma flow_bag_fold_others:
  "NetworkBytesSentGroupedByNode (fold (ProcessStats_flow_bag n) vs nls) = NetworkBytesSentGroupedByNode nls
   \<and> NetworkMessagesGroupedByNode (fold (ProcessStats_flow_bag n) vs nls) = NetworkMessagesGroupedByNode nls
   \<and> KVBytesReadGroupedByNode (fold (ProcessStats_flow_bag n) vs nls) = KVBytesReadGroupedByNode nls
   \<and> KVRowsReadGroupedByNode (fold (ProcessStats_flow_bag n) vs nls) = KVRowsReadGroupedByNode nls
   \<and> KVTimeGroupedByNode (fold (ProcessStats_flow_bag n) vs nls) = KVTimeGroupedByNode nls
   \<and> ContentionTimeGroupedByNode (fold (ProcessStats_flow_bag n) vs nls) = ContentionTimeGroupedByNode nls"
  by (induction vs arbitrary: nls) (simp_all add: ProcessStats_flow_bag_def)

lemma flow_fold_others:
  "NetworkBytesSentGroupedByNode (fold ProcessStats_flow fl nls) = NetworkBytesSentGroupedByNode nls
   \<and> NetworkMessagesGroupedByNode (fold ProcessStats_flow fl nls) = NetworkMessagesGroupedByNode nls
   \<and> KVBytesReadGroupedByNode (fold ProcessStats_flow fl nls) = KVBytesReadGroupedByNode nls
   \<and> KVRowsReadGroupedByNode (fold ProcessStats_flow fl nls) = KVRowsReadGroupedByNode nls
   \<and> KVTimeGroupedByNode (fold ProcessStats_flow fl nls) = KVTimeGroupedByNode nls
   \<and> ContentionTimeGroupedByNode (fold ProcessStats_flow fl nls) = ContentionTimeGroupedByNode nls"
  by (induction fl arbitrary: nls) (simp_all add: ProcessStats_flow_def flow_bag_fold_others)

subsection \<open>The node-level series\<close>

lemma node_KVBytesRead:
  "KVBytesReadGroupedByNode (fst (ProcessStats_node md)) =
     add_all (entries ps_nodeID ps_stats (\<lambda>cs. Some (Value (BytesRead (KV cs)))) (map snd (processorStats md))) []"
  by (simp add: ProcessStats_node_def Let_def flow_fold_others stream_fold_others proc_fold_KVBytesRead)

lemma node_KVRowsRead:
  "KVRowsReadGroupedByNode (fst (ProcessStats_node md)) =
     add_all (entries ps_nodeID ps_stats (\<lambda>cs. Some (Value (TuplesRead (KV cs)))) (map snd (processorStats md))) []"
  by (simp add: ProcessStats_node_def Let_def flow_fold_others stream_fold_others proc_fold_KVRowsRead)

lemma node_KVTime:
  "KVTimeGroupedByNode (fst (ProcessStats_node md)) =
     add_all (entries ps_nodeID ps_stats (\<lambda>cs. Some (Value (KVTime (KV cs)))) (map snd (processorStats md))) []"
  by (simp add: ProcessStats_node_def Let_def flow_fold_others stream_fold_others proc_fold_KVTime)

lemma node_ContentionTime:
  "ContentionTimeGroupedByNode (fst (ProcessStats_node md)) =
     add_all (entries ps_nodeID ps_stats (\<lambda>cs. Some (Value (ContentionTime (KV cs)))) (map snd (processorStats md))) []"
  by (simp add: ProcessStats_node_def Let_def flow_fold_others stream_fold_others proc_fold_ContentionTime)

lemma node_NetworkBytesSent:
  "NetworkBytesSentGroupedByNode (fst (ProcessStats_node md)) =
     add_all (entries ss_originNodeID ss_stats bytes_of (map snd (streamStats md))) []"
  by (simp add: ProcessStats_node_def Let_def flow_fold_others stream_fold_bytes proc_fold_others)

lemma node_NetworkMessages:
  "NetworkMessagesGroupedByNode (fst (ProcessStats_node md)) =
     add_all (entries ss_originNodeID ss_stats messages_of (map snd (streamStats md))) []"
  by (simp add: ProcessStats_node_def Let_def flow_fold_others stream_fold_messages proc_fold_others)

lemma node_MaxMemoryUsage:
  "MaxMemoryUsageGroupedByNode (fst (ProcessStats_node md)) =
     max_all (entries ss_originNodeID ss_stats peak_of (map snd (streamStats md)) @ flow_entries (flowStats md)) []"
  by (simp add: ProcessStats_node_def Let_def flow_fold_peak stream_fold_peak proc_fold_others max_all_append)

lemma node_errors:
  "all_errors (snd (ProcessStats_node md)) = concat (map stream_errors (map snd (streamStats md)))"
  by (simp add: ProcessStats_node_def Let_def stream_fold_errors)

lemma ProcessStats_fields:
  "nodeLevelStats (snd (ProcessStats a)) = fst (ProcessStats_node (ta_FlowMetadata a))
   \<and> queryLevelStats (snd (ProcessStats a)) = ProcessStats_query (fst (ProcessStats_node (ta_FlowMetadata a)))
   \<and> fst (ProcessStats a) = snd (ProcessStats_node (ta_FlowMetadata a))
   \<and> ta_FlowMetadata (snd (ProcessStats a)) = ta_FlowMetadata a"
  by (simp add: ProcessStats_def Let_def)

lemma map_filter_Some: "List.map_filter (\<lambda>x. Some (f x)) xs = map f xs"
  by (induction xs) simp_all

lemma key_in_list: "n \<in> fst ` set es \<longleftrightarrow> map snd (filter (\<lambda>kv. fst kv = n) es) \<noteq> []"
  by (induction es) auto

lemma key_in_entries:
  "n \<in> fst ` set (entries key bag g xs) \<longleftrightarrow>
     List.map_filter g (List.map_filter (\<lambda>x. if key x = n then bag x else None) xs) \<noteq> []"
  by (simp add: key_in_list entries_at)

lemma bytes_of_exactly_one: "bytes_of cs = exactly_one (BytesReceived (NetRx cs)) (BytesSent (NetTx cs))"
  by (simp add: bytes_of_def exactly_one_def getNetworkBytesFromComponentStats_def HasValue_def Value_def
      split: option.splits)

lemma messages_of_exactly_one:
  "messages_of cs = exactly_one (MessagesReceived (NetRx cs)) (MessagesSent (NetTx cs))"
  by (simp add: messages_of_def exactly_one_def getNumNetworkMessagesFromComponentsStats_def HasValue_def
      Value_def split: option.splits)

lemma flow_entries_at:
  "map snd (filter (\<lambda>kv. fst kv = n) (flow_entries fl)) =
     List.map_filter peak_of (concat (map (\<lambda>nf. if fst nf = n then fs_stats (snd nf) else []) fl))"
proof (induction fl)
  case Nil
  then show ?case by (simp add: flow_entries_def)
next
  case (Cons nf fl)
  have m: "List.map_filter f (xs @ ys) = List.map_filter f xs @ List.map_filter f ys" for f :: "ComponentStats \<Rightarrow> int64 option" and xs ys
    by (simp add: List.map_filter_def)
  have f: "map snd (filter (\<lambda>kv. fst kv = n) (map (\<lambda>v. (k, v)) vs)) = (if k = n then vs else [])" for k and vs :: "int64 list"
    by (simp add: comp_def)
  from Cons show ?case by (simp add: flow_entries_def m f)
qed

lemma node_peaks_at:
  "map snd (filter (\<lambda>kv. fst kv = n)
      (entries ss_originNodeID ss_stats peak_of (map snd (streamStats md)) @ flow_entries (flowStats md))) =
   node_peaks md n"
  by (simp add: node_peaks_def stream_bags_def flow_bags_def entries_at flow_entries_at List.map_filter_def)

lemma lookup0_Nil: "lookup0 [] n = 0"
  by (simp add: lookup0_def)

lemma getNetworkBytes_cases:
  "getNetworkBytesFromComponentStats cs =
     (case exactly_one (BytesReceived (NetRx cs)) (BytesSent (NetTx cs)) of
        Some v \<Rightarrow> Inr v
      | None \<Rightarrow> Inl (if BytesReceived (NetRx cs) = None then NeitherBytesSet else BothBytesSet))"
  by (simp add: exactly_one_def getNetworkBytesFromComponentStats_def HasValue_def Value_def
      split: option.splits)

lemma getNumNetworkMessages_cases:
  "getNumNetworkMessagesFromComponentsStats cs =
     (case exactly_one (MessagesReceived (NetRx cs)) (MessagesSent (NetTx cs)) of
        Some v \<Rightarrow> Inr v
      | None \<Rightarrow> Inl (if MessagesReceived (NetRx cs) = None then NeitherMessagesSet else BothMessagesSet))"
  by (simp add: exactly_one_def getNumNetworkMessagesFromComponentsStats_def HasValue_def Value_def
      split: option.splits)

lemma stream_errors_exclusivity:
  "stream_errors ss = (case ss_stats ss of None \<Rightarrow> [] | Some cs \<Rightarrow> exclusivity_errors cs)"
  by (simp add: stream_errors_def exclusivity_errors_def getNetworkBytes_cases
      getNumNetworkMessages_cases split: option.splits)

lemma bytes_of_fun: "bytes_of = (\<lambda>cs. exactly_one (BytesReceived (NetRx cs)) (BytesSent (NetTx cs)))"
  by (rule ext) (rule bytes_of_exactly_one)

lemma messages_of_fun:
  "messages_of = (\<lambda>cs. exactly_one (MessagesReceived (NetRx cs)) (MessagesSent (NetTx cs)))"
  by (rule ext) (rule messages_of_exactly_one)

lemma Max_insert_floor:
  assumes "finite S" "p \<in> S" "(0::int) \<le> p"
  shows "Max (insert 0 S) = Max S"
proof -
  have "S \<noteq> {}" using assms by auto
  then have "Max (insert 0 S) = max 0 (Max S)" using assms by simp
  moreover have "0 \<le> Max S" using assms by (meson Max_ge order_trans)
  ultimately show ?thesis by simp
qed

subsection \<open>The query-level loops\<close>

lemma fold_add_snd: "fold (\<lambda>kv acc. acc + snd kv) xs (a::64 word) = a + sum_list (map snd xs)"
  by (induction xs arbitrary: a) (simp_all add: add.assoc)

lemma fold_smax_snd:
  "sint (fold (\<lambda>kv acc. if acc <s snd kv then snd kv else acc) xs (a::64 word)) =
     Max (insert (sint a) (sint ` snd ` set xs))"
proof (induction xs arbitrary: a)
  case Nil
  then show ?case by simp
next
  case (Cons x xs)
  have "sint (if a <s snd x then snd x else a) = max (sint a) (sint (snd x))"
    by (simp add: word_sless_alt max_def)
  then show ?case
    using Cons.IH [of "if a <s snd x then snd x else a"]
    by (simp add: Max_insert_max del: Max_insert)
qed

lemma snd_set_update: "snd ` set (AList.update k v m) \<subseteq> insert v (snd ` set m)"
  by (induction m) auto

lemma lookup0_cases: "lookup0 m k = 0 \<or> lookup0 m k \<in> snd ` set m"
  by (auto simp add: lookup0_def split: option.splits dest!: map_of_SomeD intro: rev_image_eqI)

lemma positive_max_at:
  assumes "\<forall>v \<in> snd ` set m. 0 <s v"
  shows "\<forall>v \<in> snd ` set (max_at m k w). 0 <s v"
proof (cases "lookup0 m k <s w")
  case True
  have "0 \<le>s lookup0 m k"
    using lookup0_cases [of m k] assms by (auto simp add: word_sle_eq word_sless_alt)
  with True have w: "0 <s w" by (simp add: word_sle_eq word_sless_alt)
  have "0 <s v" if "v \<in> snd ` set (AList.update k w m)" for v
  proof -
    from that snd_set_update [of k w m] have "v = w \<or> v \<in> snd ` set m" by blast
    then show ?thesis using w assms by blast
  qed
  then show ?thesis using True by (simp add: max_at_def)
next
  case False
  then show ?thesis using assms by (simp add: max_at_def)
qed

lemma positive_max_all:
  "\<forall>v \<in> snd ` set m. 0 <s v \<Longrightarrow> \<forall>v \<in> snd ` set (max_all kvs m). 0 <s v"
proof (induction kvs arbitrary: m)
  case Nil
  then show ?case by (simp add: max_all_Nil)
next
  case (Cons kv kvs)
  show ?case
    unfolding max_all_Cons
    by (rule Cons.IH) (rule positive_max_at [OF Cons.prems])
qed

lemma node_MaxMemoryUsage_positive:
  "\<forall>v \<in> snd ` set (MaxMemoryUsageGroupedByNode (fst (ProcessStats_node md))). 0 <s v"
  unfolding node_MaxMemoryUsage by (rule positive_max_all) simp

lemma node_series_distinct:
  "distinct (map fst (NetworkBytesSentGroupedByNode (fst (ProcessStats_node md))))
   \<and> distinct (map fst (MaxMemoryUsageGroupedByNode (fst (ProcessStats_node md))))
   \<and> distinct (map fst (KVBytesReadGroupedByNode (fst (ProcessStats_node md))))
   \<and> distinct (map fst (KVRowsReadGroupedByNode (fst (ProcessStats_node md))))
   \<and> distinct (map fst (KVTimeGroupedByNode (fst (ProcessStats_node md))))
   \<and> distinct (map fst (NetworkMessagesGroupedByNode (fst (ProcessStats_node md))))
   \<and> distinct (map fst (ContentionTimeGroupedByNode (fst (ProcessStats_node md))))"
  by (simp add: node_NetworkBytesSent node_MaxMemoryUsage node_KVBytesRead node_KVRowsRead node_KVTime
      node_NetworkMessages node_ContentionTime distinct_add_all distinct_max_all)

lemma ProcessStats_accessors:
  "GetNodeLevelStats (snd (ProcessStats a)) = fst (ProcessStats_node (ta_FlowMetadata a))
   \<and> TraceAnalyzer_GetQueryLevelStats (snd (ProcessStats a)) =
       ProcessStats_query (fst (ProcessStats_node (ta_FlowMetadata a)))"
  by (simp add: ProcessStats_def Let_def GetNodeLevelStats_def TraceAnalyzer_GetQueryLevelStats_def)


lemma ex_md_node_stats:
  "GetNodeLevelStats (snd (ProcessStats (MakeTraceAnalyzer ex_md))) =
     \<lparr>NetworkBytesSentGroupedByNode = [(1, 40)], MaxMemoryUsageGroupedByNode = [(1, 80)],
      KVBytesReadGroupedByNode = [(1, 25)], KVRowsReadGroupedByNode = [(1, 2)],
      KVTimeGroupedByNode = [(1, 14)], NetworkMessagesGroupedByNode = [(1, 7)],
      ContentionTimeGroupedByNode = [(1, 10)]\<rparr>"
  by (simp add: GetNodeLevelStats_def ProcessStats_def ProcessStats_node_def MakeTraceAnalyzer_def
      ex_md_def ex_kv_def ex_net_def bag0_def ProcessStats_processor_def ProcessStats_stream_def
      ProcessStats_flow_def ProcessStats_flow_bag_def getNetworkBytesFromComponentStats_def
      getNumNetworkMessagesFromComponentsStats_def add_at_def max_at_def lookup0_def HasValue_def
      Value_def Let_def word_sless_alt)

subsection \<open>Stores into a map\<close>

lemma update_all_Nil: "update_all [] m = m"
  by (simp add: update_all_def)

lemma update_all_Cons: "update_all (kv # kvs) m = update_all kvs (AList.update (fst kv) (snd kv) m)"
  by (simp add: update_all_def)

lemma update_all_append: "update_all (xs @ ys) m = update_all ys (update_all xs m)"
  by (simp add: update_all_def)

lemma map_of_update_all: "map_of (update_all kvs m) = map_of (rev kvs @ m)"
proof (induction kvs arbitrary: m)
  case Nil
  then show ?case by (simp add: update_all_Nil)
next
  case (Cons kv kvs)
  show ?case
    by (rule ext) (simp add: update_all_Cons Cons.IH update_conv' map_add_def split: option.splits)
qed

lemma keys_update_all: "fst ` set (update_all kvs m) = fst ` set m \<union> fst ` set kvs"
  by (induction kvs arbitrary: m) (auto simp add: update_all_Nil update_all_Cons dom_update)

lemma distinct_update_all: "distinct (map fst m) \<Longrightarrow> distinct (map fst (update_all kvs m))"
  by (induction kvs arbitrary: m) (simp_all add: update_all_Nil update_all_Cons distinct_update)

lemma update_fresh: "k \<notin> fst ` set m \<Longrightarrow> AList.update k v m = m @ [(k, v)]"
  by (induction m) auto

lemma update_all_distinct: "distinct (map fst (m @ kvs)) \<Longrightarrow> update_all kvs m = m @ kvs"
proof (induction kvs arbitrary: m)
  case Nil
  then show ?case by (simp add: update_all_Nil)
next
  case (Cons kv kvs)
  from Cons.prems have fresh: "fst kv \<notin> fst ` set m" by auto
  from Cons.prems have "distinct (map fst ((m @ [kv]) @ kvs))" by simp
  from Cons.IH [OF this] show ?case
    by (simp add: update_all_Cons update_fresh [OF fresh])
qed

subsection \<open>The loops of NewFlowMetadata\<close>

lemma stream_fold_fields:
  "streamStats (fold (NewFlowMetadata_stream n) ss a) =
     update_all (map (\<lambda>s. stream_identity (n, s)) (filter (\<lambda>s. StreamType s = StreamEndpointSpec_REMOTE) ss))
       (streamStats a)
   \<and> processorStats (fold (NewFlowMetadata_stream n) ss a) = processorStats a
   \<and> flowStats (fold (NewFlowMetadata_stream n) ss a) = flowStats a"
  by (induction ss arbitrary: a)
    (simp_all add: NewFlowMetadata_stream_def update_all_Nil update_all_Cons stream_identity_def)

lemma output_fold_fields:
  "streamStats (fold (\<lambda>output. fold (NewFlowMetadata_stream n) (Streams output)) os a) =
     update_all (map (\<lambda>s. stream_identity (n, s))
                  (filter (\<lambda>s. StreamType s = StreamEndpointSpec_REMOTE) (concat (map Streams os))))
       (streamStats a)
   \<and> processorStats (fold (\<lambda>output. fold (NewFlowMetadata_stream n) (Streams output)) os a) = processorStats a
   \<and> flowStats (fold (\<lambda>output. fold (NewFlowMetadata_stream n) (Streams output)) os a) = flowStats a"
  by (induction os arbitrary: a) (simp_all add: update_all_Nil update_all_append stream_fold_fields)

lemma proc_fold_fields:
  "streamStats (fold (NewFlowMetadata_proc n) ps a) =
     update_all (map stream_identity (plan_remote_streams [(n, \<lparr>Processors = ps\<rparr>)])) (streamStats a)
   \<and> processorStats (fold (NewFlowMetadata_proc n) ps a) =
     update_all (map processor_identity (plan_processors [(n, \<lparr>Processors = ps\<rparr>)])) (processorStats a)
   \<and> flowStats (fold (NewFlowMetadata_proc n) ps a) = flowStats a"
  by (induction ps arbitrary: a)
    (simp_all add: NewFlowMetadata_proc_def plan_remote_streams_def plan_processors_def
      update_all_Nil update_all_Cons update_all_append output_fold_fields processor_identity_def comp_def)

lemma plan_processors_Cons:
  "plan_processors (nf # flows) = plan_processors [(fst nf, \<lparr>Processors = Processors (snd nf)\<rparr>)] @ plan_processors flows"
  by (simp add: plan_processors_def)

lemma plan_remote_streams_Cons:
  "plan_remote_streams (nf # flows) =
     plan_remote_streams [(fst nf, \<lparr>Processors = Processors (snd nf)\<rparr>)] @ plan_remote_streams flows"
  by (simp add: plan_remote_streams_def plan_processors_def)

lemma flow_step_fields:
  "streamStats (NewFlowMetadata_flow nf a) =
     update_all (map stream_identity (plan_remote_streams [(fst nf, \<lparr>Processors = Processors (snd nf)\<rparr>)]))
       (streamStats a)
   \<and> processorStats (NewFlowMetadata_flow nf a) =
     update_all (map processor_identity (plan_processors [(fst nf, \<lparr>Processors = Processors (snd nf)\<rparr>)]))
       (processorStats a)
   \<and> flowStats (NewFlowMetadata_flow nf a) = AList.update (fst nf) \<lparr>fs_stats = []\<rparr> (flowStats a)"
  by (simp add: NewFlowMetadata_flow_def proc_fold_fields)

lemma flow_fold_fields:
  "streamStats (fold NewFlowMetadata_flow flows a) =
     update_all (map stream_identity (plan_remote_streams flows)) (streamStats a)
   \<and> processorStats (fold NewFlowMetadata_flow flows a) =
     update_all (map processor_identity (plan_processors flows)) (processorStats a)
   \<and> flowStats (fold NewFlowMetadata_flow flows a) = update_all (map flow_slot flows) (flowStats a)"
proof (induction flows arbitrary: a)
  case Nil
  then show ?case by (simp add: update_all_Nil plan_remote_streams_def plan_processors_def)
next
  case (Cons nf flows)
  show ?case
    by (simp add: Cons.IH flow_step_fields update_all_Cons update_all_append
        plan_processors_Cons [of nf flows] plan_remote_streams_Cons [of nf flows] flow_slot_def)
qed

lemma NewFlowMetadata_fields:
  "streamStats (NewFlowMetadata flows) = update_all (map stream_identity (plan_remote_streams flows)) []
   \<and> processorStats (NewFlowMetadata flows) = update_all (map processor_identity (plan_processors flows)) []
   \<and> flowStats (NewFlowMetadata flows) = update_all (map flow_slot flows) []"
  by (simp add: NewFlowMetadata_def flow_fold_fields)

lemma inj_sint: "inj (sint :: 'a::len word \<Rightarrow> int)"
  by (rule injI) (rule signed_word_eqI)

lemma length_update_all: "length (update_all kvs []) = card (fst ` set kvs)"
proof -
  have "distinct (map fst (update_all kvs []))" by (simp add: distinct_update_all)
  then have "length (map fst (update_all kvs [])) = card (set (map fst (update_all kvs [])))"
    by (simp only: distinct_card)
  then show ?thesis by (simp add: keys_update_all)
qed

lemma values_update_all: "snd ` set (update_all kvs m) \<subseteq> snd ` set m \<union> snd ` set kvs"
proof (induction kvs arbitrary: m)
  case Nil
  then show ?case by (simp add: update_all_Nil)
next
  case (Cons kv kvs)
  have "snd ` set (update_all kvs (AList.update (fst kv) (snd kv) m))
          \<subseteq> snd ` set (AList.update (fst kv) (snd kv) m) \<union> snd ` set kvs"
    by (rule Cons.IH)
  also have "\<dots> \<subseteq> insert (snd kv) (snd ` set m) \<union> snd ` set kvs"
    using snd_set_update [of "fst kv" "snd kv" m] by blast
  finally show ?case by (auto simp add: update_all_Cons)
qed

lemma processor_keys:
  "fst ` set (map processor_identity nps) = sint ` (\<lambda>np. ProcessorID (snd np)) ` set nps"
  by (simp add: processor_identity_def image_image)

lemma processor_keys_distinct:
  assumes "distinct (map (\<lambda>np. ProcessorID (snd np)) nps)"
  shows "distinct (map fst (map processor_identity nps))"
proof -
  have "inj_on sint (set (map (\<lambda>np. ProcessorID (snd np)) nps))"
    by (rule inj_on_subset [OF inj_sint]) simp
  with assms have "distinct (map sint (map (\<lambda>np. ProcessorID (snd np)) nps))"
    by (simp only: distinct_map)
  then show ?thesis by (simp add: processor_identity_def comp_def)
qed

subsection \<open>AddTrace\<close>

lemma AddTrace_loop_append:
  "AddTrace_loop (pre @ rest) md =
     (case fst (AddTrace_loop pre md) of
        None \<Rightarrow> AddTrace_loop rest (snd (AddTrace_loop pre md))
      | Some e \<Rightarrow> AddTrace_loop pre md)"
  by (induction pre arbitrary: md) (simp_all split: sum.splits option.splits)

lemma map_of_Some_key: "map_of al k = Some v \<Longrightarrow> k \<in> set (map fst al)"
  by (auto dest: map_of_SomeD intro: rev_image_eqI)

lemma component_fails_iff: "isl (AddTrace_component (c, bag) md) \<longleftrightarrow> unknown_component md c"
  by (simp add: AddTrace_component_def unknown_component_def
      split: ComponentID_Type.splits option.splits)

lemma map_of_update_None:
  "map_of al k = Some w \<Longrightarrow> map_of (AList.update k v al) k' = None \<longleftrightarrow> map_of al k' = None"
  by (auto simp add: update_conv')

lemma unknown_preserved:
  "AddTrace_component cc md = Inr md' \<Longrightarrow> unknown_component md' c = unknown_component md c"
  by (auto simp add: AddTrace_component_def unknown_component_def Let_def map_of_update_None
      split: ComponentID_Type.splits option.splits)

lemma AddTrace_loop_ok_iff:
  "fst (AddTrace_loop m md) = None \<longleftrightarrow> (\<forall>cc \<in> set m. \<not> unknown_component md (fst cc))"
proof (induction m arbitrary: md)
  case Nil
  then show ?case by simp
next
  case (Cons cc m)
  show ?case
  proof (cases "AddTrace_component cc md")
    case (Inl e)
    then have "unknown_component md (fst cc)"
      using component_fails_iff [of "fst cc" "snd cc" md] by simp
    with Inl show ?thesis by simp
  next
    case (Inr md')
    then have "\<not> unknown_component md (fst cc)"
      using component_fails_iff [of "fst cc" "snd cc" md] by simp
    with Inr Cons.IH [of md'] unknown_preserved [OF Inr] show ?thesis by simp
  qed
qed

lemma attached_Nil: "attached t [] k = None"
  by (simp add: attached_def)

lemma attached_Cons:
  "attached t (cc # m) k =
     (case attached t m k of
        Some b \<Rightarrow> Some b
      | None \<Rightarrow> (if Type (fst cc) = t \<and> sint (ID (fst cc)) = k then Some (snd cc) else None))"
  by (simp add: attached_def split: list.splits)

lemma appended_Nil: "appended [] n = []"
  by (simp add: appended_def)

lemma appended_Cons:
  "appended (cc # m) n =
     (if Type (fst cc) = ComponentID_FLOW \<and> NodeID (fst cc) = n then snd cc # appended m n
      else appended m n)"
  by (simp add: appended_def)

lemma attach_None: "attach_processor None = (\<lambda>ps. ps) \<and> attach_stream None = (\<lambda>ss. ss)"
  by (auto simp add: attach_processor_def attach_stream_def)

lemma attach_Some:
  "attach_processor (Some bag) = (\<lambda>ps. ps\<lparr>ps_stats := Some bag\<rparr>)
   \<and> attach_stream (Some bag) = (\<lambda>ss. ss\<lparr>ss_stats := Some bag\<rparr>)"
  by (auto simp add: attach_processor_def attach_stream_def)

lemma component_step:
  assumes "\<not> unknown_component md (fst cc)"
  shows "\<exists>md1. AddTrace_component cc md = Inr md1
     \<and> map fst (processorStats md1) = map fst (processorStats md)
     \<and> map fst (streamStats md1) = map fst (streamStats md)
     \<and> map fst (flowStats md1) = map fst (flowStats md)
     \<and> (\<forall>k. map_of (processorStats md1) k =
            map_option (attach_processor (attached ComponentID_PROCESSOR [cc] k)) (map_of (processorStats md) k))
     \<and> (\<forall>k. map_of (streamStats md1) k =
            map_option (attach_stream (attached ComponentID_STREAM [cc] k)) (map_of (streamStats md) k))
     \<and> (\<forall>n. map_of (flowStats md1) n =
            map_option (\<lambda>fs. fs\<lparr>fs_stats := fs_stats fs @ appended [cc] n\<rparr>) (map_of (flowStats md) n))"
proof (cases "Type (fst cc)")
  case ComponentID_UNSET
  then show ?thesis
    by (simp add: AddTrace_component_def Let_def attached_def appended_def attach_None attach_Some
        option.map_ident)
next
  case ComponentID_PROCESSOR
  with assms obtain ps where ps: "map_of (processorStats md) (sint (ID (fst cc))) = Some ps"
    by (auto simp add: unknown_component_def)
  show ?thesis
    using ComponentID_PROCESSOR ps map_of_Some_key [OF ps]
    by (auto simp add: AddTrace_component_def Let_def attached_def appended_def attach_None attach_Some
        option.map_ident update_conv' update_keys)
next
  case ComponentID_STREAM
  with assms obtain ss where ss: "map_of (streamStats md) (sint (ID (fst cc))) = Some ss"
    by (auto simp add: unknown_component_def)
  show ?thesis
    using ComponentID_STREAM ss map_of_Some_key [OF ss]
    by (auto simp add: AddTrace_component_def Let_def attached_def appended_def attach_None attach_Some
        option.map_ident update_conv' update_keys)
next
  case ComponentID_FLOW
  with assms obtain fs where fs: "map_of (flowStats md) (NodeID (fst cc)) = Some fs"
    by (auto simp add: unknown_component_def)
  show ?thesis
    using ComponentID_FLOW fs map_of_Some_key [OF fs]
    by (auto simp add: AddTrace_component_def Let_def attached_def appended_def attach_None attach_Some
        option.map_ident update_conv' update_keys)
qed

lemma attach_processor_twice:
  "attach_processor (attached t m k) (attach_processor (attached t [cc] k) ps) =
     attach_processor (attached t (cc # m) k) ps"
  by (simp add: attach_processor_def attached_Cons attached_Nil split: option.splits)

lemma attach_stream_twice:
  "attach_stream (attached t m k) (attach_stream (attached t [cc] k) ss) =
     attach_stream (attached t (cc # m) k) ss"
  by (simp add: attach_stream_def attached_Cons attached_Nil split: option.splits)

lemma appended_twice: "appended [cc] n @ appended m n = appended (cc # m) n"
  by (simp add: appended_def)

lemma loop_known:
  "\<forall>cc \<in> set m. \<not> unknown_component md (fst cc) \<Longrightarrow>
   \<exists>md'. AddTrace_loop m md = (None, md')
     \<and> map fst (processorStats md') = map fst (processorStats md)
     \<and> map fst (streamStats md') = map fst (streamStats md)
     \<and> map fst (flowStats md') = map fst (flowStats md)
     \<and> (\<forall>k. map_of (processorStats md') k =
            map_option (attach_processor (attached ComponentID_PROCESSOR m k)) (map_of (processorStats md) k))
     \<and> (\<forall>k. map_of (streamStats md') k =
            map_option (attach_stream (attached ComponentID_STREAM m k)) (map_of (streamStats md) k))
     \<and> (\<forall>n. map_of (flowStats md') n =
            map_option (\<lambda>fs. fs\<lparr>fs_stats := fs_stats fs @ appended m n\<rparr>) (map_of (flowStats md) n))"
proof (induction m arbitrary: md)
  case Nil
  show ?case
    by (simp add: attached_Nil appended_Nil attach_None option.map_ident)
next
  case (Cons cc m)
  from Cons.prems have known: "\<not> unknown_component md (fst cc)" by simp
  from component_step [OF known] obtain md1 where
    step: "AddTrace_component cc md = Inr md1"
    and k1: "map fst (processorStats md1) = map fst (processorStats md)"
      "map fst (streamStats md1) = map fst (streamStats md)"
      "map fst (flowStats md1) = map fst (flowStats md)"
    and p1: "\<And>k. map_of (processorStats md1) k =
            map_option (attach_processor (attached ComponentID_PROCESSOR [cc] k)) (map_of (processorStats md) k)"
    and s1: "\<And>k. map_of (streamStats md1) k =
            map_option (attach_stream (attached ComponentID_STREAM [cc] k)) (map_of (streamStats md) k)"
    and f1: "\<And>n. map_of (flowStats md1) n =
            map_option (\<lambda>fs. fs\<lparr>fs_stats := fs_stats fs @ appended [cc] n\<rparr>) (map_of (flowStats md) n)"
    by blast
  have "\<forall>x \<in> set m. \<not> unknown_component md1 (fst x)"
    using Cons.prems unknown_preserved [OF step] by simp
  from Cons.IH [OF this] obtain md' where
    loop: "AddTrace_loop m md1 = (None, md')"
    and k2: "map fst (processorStats md') = map fst (processorStats md1)"
      "map fst (streamStats md') = map fst (streamStats md1)"
      "map fst (flowStats md') = map fst (flowStats md1)"
    and p2: "\<And>k. map_of (processorStats md') k =
            map_option (attach_processor (attached ComponentID_PROCESSOR m k)) (map_of (processorStats md1) k)"
    and s2: "\<And>k. map_of (streamStats md') k =
            map_option (attach_stream (attached ComponentID_STREAM m k)) (map_of (streamStats md1) k)"
    and f2: "\<And>n. map_of (flowStats md') n =
            map_option (\<lambda>fs. fs\<lparr>fs_stats := fs_stats fs @ appended m n\<rparr>) (map_of (flowStats md1) n)"
    by blast
  have l: "AddTrace_loop (cc # m) md = (None, md')"
    using step loop by simp
  have p: "map_of (processorStats md') k =
       map_option (attach_processor (attached ComponentID_PROCESSOR (cc # m) k)) (map_of (processorStats md) k)" for k
    by (simp add: p2 p1 option.map_comp comp_def attach_processor_twice)
  have s: "map_of (streamStats md') k =
       map_option (attach_stream (attached ComponentID_STREAM (cc # m) k)) (map_of (streamStats md) k)" for k
    by (simp add: s2 s1 option.map_comp comp_def attach_stream_twice)
  have f: "map_of (flowStats md') n =
       map_option (\<lambda>fs. fs\<lparr>fs_stats := fs_stats fs @ appended (cc # m) n\<rparr>) (map_of (flowStats md) n)" for n
    by (simp add: f2 f1 option.map_comp comp_def appended_twice)
  from l k1 k2 p s f show ?case by simp
qed

lemma loop_unknown_preserved:
  "fst (AddTrace_loop m md) = None \<Longrightarrow>
     unknown_component (snd (AddTrace_loop m md)) c = unknown_component md c"
proof (induction m arbitrary: md)
  case Nil
  then show ?case by simp
next
  case (Cons cc m)
  show ?case
  proof (cases "AddTrace_component cc md")
    case (Inl e)
    with Cons.prems show ?thesis by simp
  next
    case (Inr md1)
    with Cons.prems Cons.IH [of md1] unknown_preserved [OF Inr] show ?thesis by simp
  qed
qed

lemma component_unknown:
  "unknown_component md (fst cc) \<Longrightarrow>
     \<exists>e. AddTrace_component cc md = Inl e \<and> unknown_error (fst cc) = Some e"
  by (auto simp add: AddTrace_component_def unknown_component_def unknown_error_def Let_def
      split: ComponentID_Type.splits)

lemma loop_result:
  "AddTrace_loop m md = (first_failure md m, snd (AddTrace_loop (applied_entries md m) md))"
proof -
  let ?P = "\<lambda>cc. \<not> unknown_component md (fst cc)"
  have known: "\<forall>cc \<in> set (takeWhile ?P m). \<not> unknown_component md (fst cc)"
    by (auto dest: set_takeWhileD)
  then have ok: "fst (AddTrace_loop (takeWhile ?P m) md) = None"
    by (simp add: AddTrace_loop_ok_iff)
  have split: "AddTrace_loop m md =
      AddTrace_loop (dropWhile ?P m) (snd (AddTrace_loop (takeWhile ?P m) md))"
    using AddTrace_loop_append [of "takeWhile ?P m" "dropWhile ?P m" md] ok by simp
  show ?thesis
  proof (cases "dropWhile ?P m")
    case Nil
    have "first_failure md m = None"
      unfolding first_failure_def Nil by simp
    moreover have "AddTrace_loop m md = (None, snd (AddTrace_loop (takeWhile ?P m) md))"
      unfolding split Nil by simp
    ultimately show ?thesis by (simp add: applied_entries_def)
  next
    case (Cons cc rest)
    then have "cc = hd (dropWhile ?P m)" by simp
    then have "unknown_component md (fst cc)"
      using hd_dropWhile [of ?P m] Cons by auto
    then have "unknown_component (snd (AddTrace_loop (takeWhile ?P m) md)) (fst cc)"
      by (simp add: loop_unknown_preserved [OF ok])
    from component_unknown [OF this] obtain e where
      "AddTrace_component cc (snd (AddTrace_loop (takeWhile ?P m) md)) = Inl e"
      "unknown_error (fst cc) = Some e" by blast
    then have "first_failure md m = Some e"
      and "AddTrace_loop m md = (Some e, snd (AddTrace_loop (takeWhile ?P m) md))"
      unfolding first_failure_def split Cons by simp_all
    then show ?thesis by (simp add: applied_entries_def)
  qed
qed

lemma applied_known: "\<forall>cc \<in> set (applied_entries md m). \<not> unknown_component md (fst cc)"
  by (auto simp add: applied_entries_def dest: set_takeWhileD)

lemma AddTrace_call:
  "fst (AddTrace ex trace det a) = first_failure (ta_FlowMetadata a) (ex trace det)
   \<and> nodeLevelStats (snd (AddTrace ex trace det a)) = nodeLevelStats a
   \<and> queryLevelStats (snd (AddTrace ex trace det a)) = queryLevelStats a
   \<and> map fst (processorStats (ta_FlowMetadata (snd (AddTrace ex trace det a)))) =
       map fst (processorStats (ta_FlowMetadata a))
   \<and> map fst (streamStats (ta_FlowMetadata (snd (AddTrace ex trace det a)))) =
       map fst (streamStats (ta_FlowMetadata a))
   \<and> map fst (flowStats (ta_FlowMetadata (snd (AddTrace ex trace det a)))) =
       map fst (flowStats (ta_FlowMetadata a))
   \<and> map_of (processorStats (ta_FlowMetadata (snd (AddTrace ex trace det a)))) k =
       map_option
         (attach_processor
            (attached ComponentID_PROCESSOR (applied_entries (ta_FlowMetadata a) (ex trace det)) k))
         (map_of (processorStats (ta_FlowMetadata a)) k)
   \<and> map_of (streamStats (ta_FlowMetadata (snd (AddTrace ex trace det a)))) k =
       map_option
         (attach_stream
            (attached ComponentID_STREAM (applied_entries (ta_FlowMetadata a) (ex trace det)) k))
         (map_of (streamStats (ta_FlowMetadata a)) k)
   \<and> map_of (flowStats (ta_FlowMetadata (snd (AddTrace ex trace det a)))) n =
       map_option
         (\<lambda>fs. fs\<lparr>fs_stats :=
                   fs_stats fs @ appended (applied_entries (ta_FlowMetadata a) (ex trace det)) n\<rparr>)
         (map_of (flowStats (ta_FlowMetadata a)) n)
   \<and> ((\<forall>cc \<in> set (ex trace det). \<not> unknown_component (ta_FlowMetadata a) (fst cc)) \<longrightarrow>
        applied_entries (ta_FlowMetadata a) (ex trace det) = ex trace det
        \<and> first_failure (ta_FlowMetadata a) (ex trace det) = None)"
proof -
  let ?md = "ta_FlowMetadata a"
  let ?m = "ex trace det"
  from loop_known [OF applied_known [of ?md ?m]] obtain md' where
    loop: "AddTrace_loop (applied_entries ?md ?m) ?md = (None, md')"
    and keys: "map fst (processorStats md') = map fst (processorStats ?md)"
      "map fst (streamStats md') = map fst (streamStats ?md)"
      "map fst (flowStats md') = map fst (flowStats ?md)"
    and p: "\<And>k. map_of (processorStats md') k =
            map_option (attach_processor (attached ComponentID_PROCESSOR (applied_entries ?md ?m) k))
              (map_of (processorStats ?md) k)"
    and s: "\<And>k. map_of (streamStats md') k =
            map_option (attach_stream (attached ComponentID_STREAM (applied_entries ?md ?m) k))
              (map_of (streamStats ?md) k)"
    and f: "\<And>n. map_of (flowStats md') n =
            map_option (\<lambda>fs. fs\<lparr>fs_stats := fs_stats fs @ appended (applied_entries ?md ?m) n\<rparr>)
              (map_of (flowStats ?md) n)"
    by blast
  have r: "AddTrace ex trace det a = (first_failure ?md ?m, a\<lparr>ta_FlowMetadata := md'\<rparr>)"
    using loop_result [of ?m ?md] loop by (simp add: AddTrace_def Let_def)
  have all: "applied_entries ?md ?m = ?m \<and> first_failure ?md ?m = None"
    if known: "\<forall>cc \<in> set ?m. \<not> unknown_component ?md (fst cc)"
  proof -
    from known have d: "dropWhile (\<lambda>cc. \<not> unknown_component ?md (fst cc)) ?m = []"
      by simp
    have "first_failure ?md ?m = None"
      unfolding first_failure_def d by simp
    moreover from known have "applied_entries ?md ?m = ?m"
      by (simp add: applied_entries_def)
    ultimately show ?thesis by simp
  qed
  from r keys p s f all show ?thesis by simp
qed

subsection \<open>The loop of the driver\<close>







lemmas eval_defs = AddTrace_def AddTrace_component_def MakeTraceAnalyzer_def
  ex_trace_map_def ex_topology_def ex_topology2_def ex_topology3_def ex_kv_def ex_net_def bag0_def
  ProcessStats_def ProcessStats_node_def ProcessStats_processor_def ProcessStats_stream_def
  ProcessStats_flow_def ProcessStats_flow_bag_def ProcessStats_query_def
  getNetworkBytesFromComponentStats_def getNumNetworkMessagesFromComponentsStats_def
  add_at_def max_at_def lookup0_def HasValue_def Value_def Let_def word_sless_alt
  TraceAnalyzer_GetQueryLevelStats_def















subsection \<open>A topology without one of its streams\<close>

lemma node_bytes_total:
  "lookup0 (NetworkBytesSentGroupedByNode (GetNodeLevelStats (snd (ProcessStats a)))) n =
     sum_list (List.map_filter bytes_of (stream_bags (ta_FlowMetadata a) n))"
  by (simp add: ProcessStats_accessors node_NetworkBytesSent lookup0_add_all lookup0_Nil entries_at
      stream_bags_def)

lemma node_messages_total:
  "lookup0 (NetworkMessagesGroupedByNode (GetNodeLevelStats (snd (ProcessStats a)))) n =
     sum_list (List.map_filter messages_of (stream_bags (ta_FlowMetadata a) n))"
  by (simp add: ProcessStats_accessors node_NetworkMessages lookup0_add_all lookup0_Nil entries_at
      stream_bags_def)

lemma node_peak_total:
  "sint (lookup0 (MaxMemoryUsageGroupedByNode (GetNodeLevelStats (snd (ProcessStats a)))) n) =
     Max (insert 0 (sint ` set (node_peaks (ta_FlowMetadata a) n)))"
  by (simp add: ProcessStats_accessors node_MaxMemoryUsage lookup0_max_all lookup0_Nil
      node_peaks_at del: filter_append map_append)

lemma map_filter_append: "List.map_filter f (xs @ ys) = List.map_filter f xs @ List.map_filter f ys"
  by (simp add: List.map_filter_def)

lemma stream_bags_split:
  "streamStats md = pre @ (sid, ss) # post \<Longrightarrow> ss_stats ss = Some cs \<Longrightarrow>
     stream_bags md (ss_originNodeID ss) =
       stream_bags (md\<lparr>streamStats := pre\<rparr>) (ss_originNodeID ss) @ [cs] @
       stream_bags (md\<lparr>streamStats := post\<rparr>) (ss_originNodeID ss)"
  by (simp add: stream_bags_def map_filter_append)

lemma stream_bags_removed:
  "stream_bags (md\<lparr>streamStats := pre @ post\<rparr>) n =
     stream_bags (md\<lparr>streamStats := pre\<rparr>) n @ stream_bags (md\<lparr>streamStats := post\<rparr>) n"
  by (simp add: stream_bags_def map_filter_append)

lemma flow_bags_streams: "flow_bags (md\<lparr>streamStats := xs\<rparr>) n = flow_bags md n"
  by (simp add: flow_bags_def)

lemma MakeTraceAnalyzer_metadata:
  "ta_FlowMetadata (MakeTraceAnalyzer md) = md
   \<and> (MakeTraceAnalyzer md)\<lparr>ta_FlowMetadata := md'\<rparr> = MakeTraceAnalyzer md'"
  by (simp add: MakeTraceAnalyzer_def)

lemma ex_md2_streams:
  "streamStats ex_md2 = [(1, ex_good_stream), (2, ex_bad_bytes_stream), (3, ex_bad_messages_stream)]"
  by (simp add: ex_md2_def)

lemmas ex_md2_defs = ex_md2_def ex_good_stream_def ex_bad_bytes_stream_def ex_bad_messages_stream_def

lemma ex_md2_without2:
  "GetNodeLevelStats (snd (ProcessStats (MakeTraceAnalyzer
      (ex_md2\<lparr>streamStats := [(1, ex_good_stream), (3, ex_bad_messages_stream)]\<rparr>)))) =
     \<lparr>NetworkBytesSentGroupedByNode = [(1, 48)], MaxMemoryUsageGroupedByNode = [(1, 80)],
      KVBytesReadGroupedByNode = [], KVRowsReadGroupedByNode = [],
      KVTimeGroupedByNode = [], NetworkMessagesGroupedByNode = [(1, 4)],
      ContentionTimeGroupedByNode = []\<rparr>"
  by (simp add: GetNodeLevelStats_def ex_md2_defs eval_defs)

lemma ex_md2_without3:
  "GetNodeLevelStats (snd (ProcessStats (MakeTraceAnalyzer
      (ex_md2\<lparr>streamStats := [(1, ex_good_stream), (2, ex_bad_bytes_stream)]\<rparr>)))) =
     \<lparr>NetworkBytesSentGroupedByNode = [(1, 40)], MaxMemoryUsageGroupedByNode = [(1, 90)],
      KVBytesReadGroupedByNode = [], KVRowsReadGroupedByNode = [],
      KVTimeGroupedByNode = [], NetworkMessagesGroupedByNode = [(1, 7)],
      ContentionTimeGroupedByNode = []\<rparr>"
  by (simp add: GetNodeLevelStats_def ex_md2_defs eval_defs)

lemma ex_bad_bytes_bag:
  "ss_stats ex_bad_bytes_stream = Some (ex_net (Some 5) (Some 6) (Some 3) None (Some 90))
   \<and> ss_originNodeID ex_bad_bytes_stream = 1
   \<and> getNetworkBytesFromComponentStats (ex_net (Some 5) (Some 6) (Some 3) None (Some 90)) = Inl BothBytesSet
   \<and> exactly_one (MessagesReceived (NetRx (ex_net (Some 5) (Some 6) (Some 3) None (Some 90))))
        (MessagesSent (NetTx (ex_net (Some 5) (Some 6) (Some 3) None (Some 90)))) = Some 3
   \<and> MaxMemUsage (FlowStats (ex_net (Some 5) (Some 6) (Some 3) None (Some 90))) = Some 90"
  by (simp add: ex_bad_bytes_stream_def getNetworkBytesFromComponentStats_def exactly_one_def
      ex_net_def bag0_def HasValue_def)

lemma ex_bad_messages_bag:
  "ss_stats ex_bad_messages_stream = Some (ex_net None (Some 8) (Some 2) (Some 2) None)
   \<and> ss_originNodeID ex_bad_messages_stream = 1
   \<and> getNumNetworkMessagesFromComponentsStats (ex_net None (Some 8) (Some 2) (Some 2) None) =
       Inl BothMessagesSet
   \<and> exactly_one (BytesReceived (NetRx (ex_net None (Some 8) (Some 2) (Some 2) None)))
        (BytesSent (NetTx (ex_net None (Some 8) (Some 2) (Some 2) None))) = Some 8"
  by (simp add: ex_bad_messages_stream_def getNumNetworkMessagesFromComponentsStats_def
      exactly_one_def ex_net_def bag0_def HasValue_def)



section \<open>The claims\<close>

text \<open>
  C8. The fold operation \<^verbatim>\<open>Accumulate\<close> adds each of the six additive fields of the
  two instances (in 64-bit arithmetic) and takes the larger of the two peak-memory
  fields, compared as signed 64-bit integers.
\<close>

theorem Accumulate_sums_and_max:
  "NetworkBytesSent (Accumulate s other) = NetworkBytesSent s + NetworkBytesSent other
   \<and> KVBytesRead (Accumulate s other) = KVBytesRead s + KVBytesRead other
   \<and> KVRowsRead (Accumulate s other) = KVRowsRead s + KVRowsRead other
   \<and> QKVTime (Accumulate s other) = QKVTime s + QKVTime other
   \<and> NetworkMessages (Accumulate s other) = NetworkMessages s + NetworkMessages other
   \<and> QContentionTime (Accumulate s other) = QContentionTime s + QContentionTime other
   \<and> sint (QMaxMemUsage (Accumulate s other)) = max (sint (QMaxMemUsage s)) (sint (QMaxMemUsage other))"
  by (simp add: Accumulate_def word_sless_alt max_def)

text \<open>
  C7. After \<^verbatim>\<open>ProcessStats\<close>, for every node \<open>n\<close>, each of kv-bytes-read,
  kv-rows-read, kv-time and contention-time read at \<open>n\<close> is the sum of that field over
  the bags that are present on the processors owned by \<open>n\<close>. A processor without a bag
  adds nothing, not even a zero: the node is a key of the series exactly when one of
  its processors has a bag.
\<close>

theorem processor_metrics_sum_present_bags:
  "lookup0 (KVBytesReadGroupedByNode (GetNodeLevelStats (snd (ProcessStats a)))) n =
     sum_list (map (\<lambda>cs. Value (BytesRead (KV cs))) (processor_bags (ta_FlowMetadata a) n))
   \<and> lookup0 (KVRowsReadGroupedByNode (GetNodeLevelStats (snd (ProcessStats a)))) n =
     sum_list (map (\<lambda>cs. Value (TuplesRead (KV cs))) (processor_bags (ta_FlowMetadata a) n))
   \<and> lookup0 (KVTimeGroupedByNode (GetNodeLevelStats (snd (ProcessStats a)))) n =
     sum_list (map (\<lambda>cs. Value (KVTime (KV cs))) (processor_bags (ta_FlowMetadata a) n))
   \<and> lookup0 (ContentionTimeGroupedByNode (GetNodeLevelStats (snd (ProcessStats a)))) n =
     sum_list (map (\<lambda>cs. Value (ContentionTime (KV cs))) (processor_bags (ta_FlowMetadata a) n))
   \<and> (n \<in> fst ` set (KVBytesReadGroupedByNode (GetNodeLevelStats (snd (ProcessStats a))))
        \<longleftrightarrow> processor_bags (ta_FlowMetadata a) n \<noteq> [])
   \<and> (n \<in> fst ` set (KVRowsReadGroupedByNode (GetNodeLevelStats (snd (ProcessStats a))))
        \<longleftrightarrow> processor_bags (ta_FlowMetadata a) n \<noteq> [])
   \<and> (n \<in> fst ` set (KVTimeGroupedByNode (GetNodeLevelStats (snd (ProcessStats a))))
        \<longleftrightarrow> processor_bags (ta_FlowMetadata a) n \<noteq> [])
   \<and> (n \<in> fst ` set (ContentionTimeGroupedByNode (GetNodeLevelStats (snd (ProcessStats a))))
        \<longleftrightarrow> processor_bags (ta_FlowMetadata a) n \<noteq> [])"
  by (simp add: ProcessStats_accessors node_KVBytesRead node_KVRowsRead node_KVTime node_ContentionTime
      lookup0_add_all keys_add_all key_in_entries entries_at lookup0_Nil map_filter_Some
      processor_bags_def)

theorem processor_metrics_sum_present_bags_witness:
  "lookup0 (KVBytesReadGroupedByNode (GetNodeLevelStats (snd (ProcessStats (MakeTraceAnalyzer ex_md))))) 1 = 25
   \<and> 2 \<notin> fst ` set (KVBytesReadGroupedByNode (GetNodeLevelStats (snd (ProcessStats (MakeTraceAnalyzer ex_md)))))"
  using processor_metrics_sum_present_bags [of "MakeTraceAnalyzer ex_md" 1]
    processor_metrics_sum_present_bags [of "MakeTraceAnalyzer ex_md" 2]
  by (simp add: MakeTraceAnalyzer_def processor_bags_def ex_md_def ex_kv_def bag0_def Value_def)

text \<open>
  C3. For every bag \<open>cs\<close>: \<^verbatim>\<open>getNetworkBytesFromComponentStats\<close> returns the value of
  the one byte count that is present when exactly one of bytesReceived and bytesSent
  is, and an error when both or neither are; likewise for the message counts. After
  \<^verbatim>\<open>ProcessStats\<close>, for every node \<open>n\<close>, the network-bytes-sent total of \<open>n\<close> is the
  sum of those values over all streams with a bag that originate at \<open>n\<close>, the streams
  in violation adding nothing; the same holds for the network-messages total. The
  pass visits every stream: the combined error holds one error for each violation of
  each stream, in the order of the streams, and the totals are those over all
  streams, whichever of them was in violation.
\<close>

theorem stream_exclusivity:
  "getNetworkBytesFromComponentStats cs =
     (case exactly_one (BytesReceived (NetRx cs)) (BytesSent (NetTx cs)) of
        Some v \<Rightarrow> Inr v
      | None \<Rightarrow> Inl (if BytesReceived (NetRx cs) = None then NeitherBytesSet else BothBytesSet))
   \<and> getNumNetworkMessagesFromComponentsStats cs =
     (case exactly_one (MessagesReceived (NetRx cs)) (MessagesSent (NetTx cs)) of
        Some v \<Rightarrow> Inr v
      | None \<Rightarrow> Inl (if MessagesReceived (NetRx cs) = None then NeitherMessagesSet else BothMessagesSet))
   \<and> lookup0 (NetworkBytesSentGroupedByNode (GetNodeLevelStats (snd (ProcessStats a)))) n =
     sum_list (List.map_filter (\<lambda>cs. exactly_one (BytesReceived (NetRx cs)) (BytesSent (NetTx cs)))
                (stream_bags (ta_FlowMetadata a) n))
   \<and> lookup0 (NetworkMessagesGroupedByNode (GetNodeLevelStats (snd (ProcessStats a)))) n =
     sum_list (List.map_filter (\<lambda>cs. exactly_one (MessagesReceived (NetRx cs)) (MessagesSent (NetTx cs)))
                (stream_bags (ta_FlowMetadata a) n))
   \<and> all_errors (fst (ProcessStats a)) =
     concat (map (\<lambda>ss. case ss_stats ss of None \<Rightarrow> [] | Some cs \<Rightarrow> exclusivity_errors cs)
               (map snd (streamStats (ta_FlowMetadata a))))"
proof -
  have b: "lookup0 (NetworkBytesSentGroupedByNode (GetNodeLevelStats (snd (ProcessStats a)))) n =
     sum_list (List.map_filter (\<lambda>cs. exactly_one (BytesReceived (NetRx cs)) (BytesSent (NetTx cs)))
                (stream_bags (ta_FlowMetadata a) n))"
    by (simp add: ProcessStats_accessors ProcessStats_fields node_NetworkBytesSent lookup0_add_all lookup0_Nil entries_at
        stream_bags_def bytes_of_fun)
  have m: "lookup0 (NetworkMessagesGroupedByNode (GetNodeLevelStats (snd (ProcessStats a)))) n =
     sum_list (List.map_filter (\<lambda>cs. exactly_one (MessagesReceived (NetRx cs)) (MessagesSent (NetTx cs)))
                (stream_bags (ta_FlowMetadata a) n))"
    by (simp add: ProcessStats_accessors ProcessStats_fields node_NetworkMessages lookup0_add_all lookup0_Nil entries_at
        stream_bags_def messages_of_fun)
  have e: "all_errors (fst (ProcessStats a)) =
     concat (map (\<lambda>ss. case ss_stats ss of None \<Rightarrow> [] | Some cs \<Rightarrow> exclusivity_errors cs)
               (map snd (streamStats (ta_FlowMetadata a))))"
    by (simp add: ProcessStats_accessors ProcessStats_fields node_errors stream_errors_exclusivity comp_def)
  show ?thesis
    using b m e getNetworkBytes_cases [of cs] getNumNetworkMessages_cases [of cs] by simp
qed

theorem stream_exclusivity_witness:
  "lookup0 (NetworkBytesSentGroupedByNode (GetNodeLevelStats (snd (ProcessStats (MakeTraceAnalyzer ex_md))))) 1 = 40
   \<and> lookup0 (NetworkMessagesGroupedByNode (GetNodeLevelStats (snd (ProcessStats (MakeTraceAnalyzer ex_md))))) 1 = 7
   \<and> all_errors (fst (ProcessStats (MakeTraceAnalyzer ex_md))) =
       [Wrap BothBytesSet ''error calculating network bytes sent'',
        Wrap NeitherBytesSet ''error calculating network bytes sent'',
        Wrap NeitherMessagesSet ''error calculating number of network messages'']"
  using stream_exclusivity [of bag0 "MakeTraceAnalyzer ex_md" 1]
  by (simp add: MakeTraceAnalyzer_def stream_bags_def exclusivity_errors_def exactly_one_def ex_md_def
      ex_net_def bag0_def)

text \<open>
  C4 (as amended). After \<^verbatim>\<open>ProcessStats\<close>, for every node \<open>n\<close>, the max-memory-usage
  value of \<open>n\<close> is the maximum (never the sum) of zero and every present peak-memory
  value of \<open>n\<close>, from the flow sub-bags of the streams that originate at \<open>n\<close> and from
  the entries of its flow-slot list, the values being compared as signed 64-bit
  integers. Whenever one of these values is not negative as a signed 64-bit integer,
  the value of \<open>n\<close> is one of them and none of them is larger.
\<close>

theorem node_max_memory:
  "sint (lookup0 (MaxMemoryUsageGroupedByNode (GetNodeLevelStats (snd (ProcessStats a)))) n) =
     Max (insert 0 (sint ` set (node_peaks (ta_FlowMetadata a) n)))
   \<and> ((\<exists>p \<in> set (node_peaks (ta_FlowMetadata a) n). 0 \<le>s p) \<longrightarrow>
        lookup0 (MaxMemoryUsageGroupedByNode (GetNodeLevelStats (snd (ProcessStats a)))) n
          \<in> set (node_peaks (ta_FlowMetadata a) n)
        \<and> (\<forall>p \<in> set (node_peaks (ta_FlowMetadata a) n).
             p \<le>s lookup0 (MaxMemoryUsageGroupedByNode (GetNodeLevelStats (snd (ProcessStats a)))) n))"
proof -
  let ?v = "lookup0 (MaxMemoryUsageGroupedByNode (GetNodeLevelStats (snd (ProcessStats a)))) n"
  let ?P = "set (node_peaks (ta_FlowMetadata a) n)"
  have eq: "sint ?v = Max (insert 0 (sint ` ?P))"
    by (simp add: ProcessStats_accessors ProcessStats_fields node_MaxMemoryUsage lookup0_max_all lookup0_Nil
        node_peaks_at del: filter_append map_append)
  have "?v \<in> ?P \<and> (\<forall>p \<in> ?P. p \<le>s ?v)" if "\<exists>p \<in> ?P. 0 \<le>s p"
  proof -
    from that obtain p where p: "p \<in> ?P" "0 \<le> sint p" by (auto simp add: word_sle_eq)
    have fin: "finite (sint ` ?P)" by simp
    have "sint ?v = Max (sint ` ?P)"
      using eq Max_insert_floor [OF fin _ p(2)] p(1) by simp
    moreover have ne: "sint ` ?P \<noteq> {}" using p(1) by auto
    ultimately have in_img: "sint ?v \<in> sint ` ?P" and ub: "\<forall>x \<in> sint ` ?P. x \<le> sint ?v"
      using Max_in [OF fin ne] by simp_all
    from in_img obtain q where "q \<in> ?P" "sint ?v = sint q" by auto
    then have "?v \<in> ?P" by (auto dest: signed_word_eqI)
    then show ?thesis using ub by (simp add: word_sle_eq)
  qed
  with eq show ?thesis by blast
qed

theorem node_max_memory_witness:
  "node_peaks ex_md 1 = [50, 80]
   \<and> lookup0 (MaxMemoryUsageGroupedByNode (GetNodeLevelStats (snd (ProcessStats (MakeTraceAnalyzer ex_md))))) 1
       \<in> {50, 80}
   \<and> sint (lookup0 (MaxMemoryUsageGroupedByNode (GetNodeLevelStats (snd (ProcessStats (MakeTraceAnalyzer ex_md))))) 1)
       = 80"
  using node_max_memory [of "MakeTraceAnalyzer ex_md" 1]
  by (simp add: MakeTraceAnalyzer_def node_peaks_def stream_bags_def flow_bags_def peak_of_def
      ex_md_def ex_net_def bag0_def word_sle_eq)

text \<open>
  C4 as the specification words it, for every present peak-memory value, fails where
  the only present value of a node is \<open>2 ^ 63\<close>: converted to \<^verbatim>\<open>int64\<close> it is
  negative, it is not greater than the zero read from the map, and nothing is stored
  for the node, whose value then reads zero.
\<close>

theorem node_max_memory_counterexample:
  "node_peaks ex_huge_md 1 = [9223372036854775808]
   \<and> lookup0 (MaxMemoryUsageGroupedByNode (GetNodeLevelStats (snd (ProcessStats (MakeTraceAnalyzer ex_huge_md))))) 1
       = 0
   \<and> lookup0 (MaxMemoryUsageGroupedByNode (GetNodeLevelStats (snd (ProcessStats (MakeTraceAnalyzer ex_huge_md))))) 1
       \<noteq> Max (set (node_peaks ex_huge_md 1))"
  by (simp add: GetNodeLevelStats_def ProcessStats_def ProcessStats_node_def MakeTraceAnalyzer_def
      ex_huge_md_def ex_net_def bag0_def ProcessStats_stream_def ProcessStats_flow_def
      getNetworkBytesFromComponentStats_def getNumNetworkMessagesFromComponentsStats_def add_at_def
      max_at_def lookup0_def HasValue_def Value_def Let_def word_sless_alt node_peaks_def
      stream_bags_def flow_bags_def peak_of_def)

text \<open>
  C1. The query-level part of \<^verbatim>\<open>ProcessStats\<close>: NetworkBytesSent, KVBytesRead,
  KVRowsRead, KVTime and NetworkMessages are each the sum of the corresponding
  node-level series, in which every node occurs once; ContentionTime is the sum of the
  kv-time series, not of the contention-time series; MaxMemUsage is the maximum of
  the max-memory series (zero for the empty series), compared as signed 64-bit
  integers.
\<close>

theorem query_level_reduction:
  "NetworkBytesSent (TraceAnalyzer_GetQueryLevelStats (snd (ProcessStats a))) =
     sum_list (map snd (NetworkBytesSentGroupedByNode (GetNodeLevelStats (snd (ProcessStats a)))))
   \<and> KVBytesRead (TraceAnalyzer_GetQueryLevelStats (snd (ProcessStats a))) =
     sum_list (map snd (KVBytesReadGroupedByNode (GetNodeLevelStats (snd (ProcessStats a)))))
   \<and> KVRowsRead (TraceAnalyzer_GetQueryLevelStats (snd (ProcessStats a))) =
     sum_list (map snd (KVRowsReadGroupedByNode (GetNodeLevelStats (snd (ProcessStats a)))))
   \<and> QKVTime (TraceAnalyzer_GetQueryLevelStats (snd (ProcessStats a))) =
     sum_list (map snd (KVTimeGroupedByNode (GetNodeLevelStats (snd (ProcessStats a)))))
   \<and> NetworkMessages (TraceAnalyzer_GetQueryLevelStats (snd (ProcessStats a))) =
     sum_list (map snd (NetworkMessagesGroupedByNode (GetNodeLevelStats (snd (ProcessStats a)))))
   \<and> QContentionTime (TraceAnalyzer_GetQueryLevelStats (snd (ProcessStats a))) =
     sum_list (map snd (KVTimeGroupedByNode (GetNodeLevelStats (snd (ProcessStats a)))))
   \<and> sint (QMaxMemUsage (TraceAnalyzer_GetQueryLevelStats (snd (ProcessStats a)))) =
     Max (insert 0 (sint ` snd ` set (MaxMemoryUsageGroupedByNode (GetNodeLevelStats (snd (ProcessStats a))))))
   \<and> (MaxMemoryUsageGroupedByNode (GetNodeLevelStats (snd (ProcessStats a))) \<noteq> [] \<longrightarrow>
        sint (QMaxMemUsage (TraceAnalyzer_GetQueryLevelStats (snd (ProcessStats a)))) =
        Max (sint ` snd ` set (MaxMemoryUsageGroupedByNode (GetNodeLevelStats (snd (ProcessStats a))))))
   \<and> distinct (map fst (NetworkBytesSentGroupedByNode (GetNodeLevelStats (snd (ProcessStats a)))))
   \<and> distinct (map fst (MaxMemoryUsageGroupedByNode (GetNodeLevelStats (snd (ProcessStats a)))))
   \<and> distinct (map fst (KVBytesReadGroupedByNode (GetNodeLevelStats (snd (ProcessStats a)))))
   \<and> distinct (map fst (KVRowsReadGroupedByNode (GetNodeLevelStats (snd (ProcessStats a)))))
   \<and> distinct (map fst (KVTimeGroupedByNode (GetNodeLevelStats (snd (ProcessStats a)))))
   \<and> distinct (map fst (NetworkMessagesGroupedByNode (GetNodeLevelStats (snd (ProcessStats a)))))"
proof -
  let ?nls = "fst (ProcessStats_node (ta_FlowMetadata a))"
  let ?S = "sint ` snd ` set (MaxMemoryUsageGroupedByNode ?nls)"
  have floor: "Max (insert 0 ?S) = Max ?S" if ne: "MaxMemoryUsageGroupedByNode ?nls \<noteq> []"
  proof -
    from ne obtain kv where kv: "kv \<in> set (MaxMemoryUsageGroupedByNode ?nls)"
      by (cases "MaxMemoryUsageGroupedByNode ?nls") auto
    then have "0 <s snd kv"
      using node_MaxMemoryUsage_positive [of "ta_FlowMetadata a"] by auto
    then have "0 \<le> sint (snd kv)" by (simp add: word_sless_alt)
    moreover have "sint (snd kv) \<in> ?S" using kv by auto
    ultimately show ?thesis by (intro Max_insert_floor) simp_all
  qed
  show ?thesis
    using floor node_series_distinct [of "ta_FlowMetadata a"]
    by (simp add: ProcessStats_accessors ProcessStats_query_def fold_add_snd fold_smax_snd)
qed

theorem query_level_reduction_witness:
  "QContentionTime (TraceAnalyzer_GetQueryLevelStats (snd (ProcessStats (MakeTraceAnalyzer ex_md)))) = 14
   \<and> sum_list (map snd (ContentionTimeGroupedByNode
                          (GetNodeLevelStats (snd (ProcessStats (MakeTraceAnalyzer ex_md)))))) = 10
   \<and> NetworkBytesSent (TraceAnalyzer_GetQueryLevelStats (snd (ProcessStats (MakeTraceAnalyzer ex_md)))) = 40
   \<and> sint (QMaxMemUsage (TraceAnalyzer_GetQueryLevelStats (snd (ProcessStats (MakeTraceAnalyzer ex_md))))) = 80"
  using query_level_reduction [of "MakeTraceAnalyzer ex_md"]
  by (simp add: ex_md_node_stats)

text \<open>
  C6 (as amended). \<^verbatim>\<open>NewFlowMetadata\<close> is total (it has no error path) and registers:
  exactly one flow slot, with an empty list, per distinct node of the plan; one
  processor identity per distinct processor id, with no bag, which is the identity of
  the processor of that id that the loop visited last (its owner is that processor's
  node); and one stream identity per distinct id of a remote stream, with no bag,
  origin the node of the processor it leaves and destination its declared target
  node, again for the stream visited last. Streams that are not remote are not
  tracked. When the processor ids of the plan are pairwise distinct, there is one
  identity per processor, owned by its node; when the ids of the remote streams are,
  there is one identity per remote stream.
\<close>

theorem NewFlowMetadata_registers:
  "distinct (map fst (flowStats (NewFlowMetadata flows)))
   \<and> fst ` set (flowStats (NewFlowMetadata flows)) = fst ` set flows
   \<and> snd ` set (flowStats (NewFlowMetadata flows)) \<subseteq> {\<lparr>fs_stats = []\<rparr>}
   \<and> length (flowStats (NewFlowMetadata flows)) = card (fst ` set flows)
   \<and> distinct (map fst (processorStats (NewFlowMetadata flows)))
   \<and> map_of (processorStats (NewFlowMetadata flows)) =
       map_of (rev (map processor_identity (plan_processors flows)))
   \<and> length (processorStats (NewFlowMetadata flows)) =
       card ((\<lambda>np. ProcessorID (snd np)) ` set (plan_processors flows))
   \<and> distinct (map fst (streamStats (NewFlowMetadata flows)))
   \<and> map_of (streamStats (NewFlowMetadata flows)) =
       map_of (rev (map stream_identity (plan_remote_streams flows)))
   \<and> length (streamStats (NewFlowMetadata flows)) =
       card ((\<lambda>ns. StreamID (snd ns)) ` set (plan_remote_streams flows))
   \<and> (distinct (map (\<lambda>np. ProcessorID (snd np)) (plan_processors flows)) \<longrightarrow>
        processorStats (NewFlowMetadata flows) = map processor_identity (plan_processors flows))
   \<and> (distinct (map (\<lambda>ns. StreamID (snd ns)) (plan_remote_streams flows)) \<longrightarrow>
        streamStats (NewFlowMetadata flows) = map stream_identity (plan_remote_streams flows))"
proof -
  have f1: "distinct (map fst (flowStats (NewFlowMetadata flows)))"
    by (simp add: NewFlowMetadata_fields distinct_update_all)
  have f2: "fst ` set (flowStats (NewFlowMetadata flows)) = fst ` set flows"
    by (simp add: NewFlowMetadata_fields keys_update_all flow_slot_def image_image)
  have f3: "snd ` set (flowStats (NewFlowMetadata flows)) \<subseteq> {\<lparr>fs_stats = []\<rparr>}"
    using values_update_all [of "map flow_slot flows" "[]"]
    by (auto simp add: NewFlowMetadata_fields flow_slot_def)
  have f4: "length (flowStats (NewFlowMetadata flows)) = card (fst ` set flows)"
    by (simp add: NewFlowMetadata_fields length_update_all flow_slot_def image_image)
  have p1: "distinct (map fst (processorStats (NewFlowMetadata flows)))"
    by (simp add: NewFlowMetadata_fields distinct_update_all)
  have p2: "map_of (processorStats (NewFlowMetadata flows)) =
       map_of (rev (map processor_identity (plan_processors flows)))"
    by (simp add: NewFlowMetadata_fields map_of_update_all)
  have p3: "length (processorStats (NewFlowMetadata flows)) =
       card ((\<lambda>np. ProcessorID (snd np)) ` set (plan_processors flows))"
    by (simp only: NewFlowMetadata_fields length_update_all processor_keys
        card_image [OF inj_on_subset [OF inj_sint subset_UNIV]])
  have s1: "distinct (map fst (streamStats (NewFlowMetadata flows)))"
    by (simp add: NewFlowMetadata_fields distinct_update_all)
  have s2: "map_of (streamStats (NewFlowMetadata flows)) =
       map_of (rev (map stream_identity (plan_remote_streams flows)))"
    by (simp add: NewFlowMetadata_fields map_of_update_all)
  have s3: "length (streamStats (NewFlowMetadata flows)) =
       card ((\<lambda>ns. StreamID (snd ns)) ` set (plan_remote_streams flows))"
    by (simp add: NewFlowMetadata_fields length_update_all stream_identity_def image_image)
  have p4: "processorStats (NewFlowMetadata flows) = map processor_identity (plan_processors flows)"
    if "distinct (map (\<lambda>np. ProcessorID (snd np)) (plan_processors flows))"
    using update_all_distinct [of "[]" "map processor_identity (plan_processors flows)"]
      processor_keys_distinct [OF that]
    by (simp add: NewFlowMetadata_fields)
  have s4: "streamStats (NewFlowMetadata flows) = map stream_identity (plan_remote_streams flows)"
    if "distinct (map (\<lambda>ns. StreamID (snd ns)) (plan_remote_streams flows))"
    using update_all_distinct [of "[]" "map stream_identity (plan_remote_streams flows)"] that
    by (simp add: NewFlowMetadata_fields stream_identity_def comp_def)
  from f1 f2 f3 f4 p1 p2 p3 s1 s2 s3 p4 s4 show ?thesis by blast
qed

theorem NewFlowMetadata_registers_witness:
  "processorStats (NewFlowMetadata ex_plan) =
     [(1, \<lparr>ps_nodeID = 1, ps_stats = None\<rparr>), (2, \<lparr>ps_nodeID = 2, ps_stats = None\<rparr>)]
   \<and> streamStats (NewFlowMetadata ex_plan) =
     [(1, \<lparr>ss_originNodeID = 1, ss_destinationNodeID = 2, ss_stats = None\<rparr>)]
   \<and> length (flowStats (NewFlowMetadata ex_plan)) = 2"
  using NewFlowMetadata_registers [of ex_plan]
  by (simp add: ex_plan_def plan_processors_def plan_remote_streams_def processor_identity_def
      stream_identity_def)

text \<open>
  C6 as the specification words it, for every plan, fails on a plan in which two
  processors carry one id: the two processors get one identity, owned by the node of
  the second.
\<close>

theorem NewFlowMetadata_registers_counterexample:
  "length (plan_processors ex_dup_plan) = 2
   \<and> processorStats (NewFlowMetadata ex_dup_plan) = [(7, \<lparr>ps_nodeID = 2, ps_stats = None\<rparr>)]"
  by (simp add: ex_dup_plan_def plan_processors_def NewFlowMetadata_def NewFlowMetadata_flow_def
      NewFlowMetadata_proc_def)

text \<open>
  C5. One entry of the extracted map in \<^verbatim>\<open>AddTrace\<close>: a reference to a processor or
  a stream that the topology holds stores the bag on it, whatever bag it had before,
  and changes nothing else; a reference to the flow of a node that the topology holds
  appends the bag to the list of the node's flow slot; a reference to a processor, a
  stream or a flow node that the topology does not hold is an error that names it.
  The call: at the first entry that fails, \<^verbatim>\<open>AddTrace\<close> returns that error at once,
  and the topology is the one the entries before it have left (they stay applied,
  the entries after it are not); the call returns no error exactly when no entry of
  the map references something the topology does not hold. And what the call leaves,
  said without its loop: the error is the one for the first entry that references
  something the topology does not hold, nil when there is none; the keys of the
  three maps, and the node-level and query-level stats of the analyzer, are as
  before; every processor and every stream carries the bag of the last applied entry
  that references it, and its own bag when none does; every flow slot has the bags of
  the applied entries that reference its node appended, in order. The applied
  entries are those before the first failing one, which are all of them when the
  call succeeds.
\<close>

theorem AddTrace_attach_append_abort:
  "(Type c = ComponentID_PROCESSOR \<and> map_of (processorStats md) (sint (ID c)) = Some ps \<longrightarrow>
      (\<exists>md'. AddTrace_component (c, bag) md = Inr md'
         \<and> map_of (processorStats md') = (map_of (processorStats md))(sint (ID c) \<mapsto> ps\<lparr>ps_stats := Some bag\<rparr>)
         \<and> map fst (processorStats md') = map fst (processorStats md)
         \<and> streamStats md' = streamStats md \<and> flowStats md' = flowStats md))
   \<and> (Type c = ComponentID_STREAM \<and> map_of (streamStats md) (sint (ID c)) = Some ss \<longrightarrow>
      (\<exists>md'. AddTrace_component (c, bag) md = Inr md'
         \<and> map_of (streamStats md') = (map_of (streamStats md))(sint (ID c) \<mapsto> ss\<lparr>ss_stats := Some bag\<rparr>)
         \<and> map fst (streamStats md') = map fst (streamStats md)
         \<and> processorStats md' = processorStats md \<and> flowStats md' = flowStats md))
   \<and> (Type c = ComponentID_FLOW \<and> map_of (flowStats md) (NodeID c) = Some fs \<longrightarrow>
      (\<exists>md'. AddTrace_component (c, bag) md = Inr md'
         \<and> map_of (flowStats md') = (map_of (flowStats md))(NodeID c \<mapsto> fs\<lparr>fs_stats := fs_stats fs @ [bag]\<rparr>)
         \<and> map fst (flowStats md') = map fst (flowStats md)
         \<and> processorStats md' = processorStats md \<and> streamStats md' = streamStats md))
   \<and> (Type c = ComponentID_PROCESSOR \<and> map_of (processorStats md) (sint (ID c)) = None \<longrightarrow>
        AddTrace_component (c, bag) md = Inl (UnknownProcessor (ID c)))
   \<and> (Type c = ComponentID_STREAM \<and> map_of (streamStats md) (sint (ID c)) = None \<longrightarrow>
        AddTrace_component (c, bag) md = Inl (UnknownStream (ID c)))
   \<and> (Type c = ComponentID_FLOW \<and> map_of (flowStats md) (NodeID c) = None \<longrightarrow>
        AddTrace_component (c, bag) md = Inl (UnknownFlow (FlowID c) (NodeID c)))
   \<and> (ex trace det = pre @ (c, bag) # post
        \<and> fst (AddTrace_loop pre (ta_FlowMetadata a)) = None
        \<and> AddTrace_component (c, bag) (snd (AddTrace_loop pre (ta_FlowMetadata a))) = Inl err \<longrightarrow>
        AddTrace ex trace det a =
          (Some err, a\<lparr>ta_FlowMetadata := snd (AddTrace_loop pre (ta_FlowMetadata a))\<rparr>))
   \<and> (fst (AddTrace ex trace det a) = None \<longleftrightarrow>
        (\<forall>cc \<in> set (ex trace det). \<not> unknown_component (ta_FlowMetadata a) (fst cc)))
   \<and> (fst (AddTrace ex trace det a) = first_failure (ta_FlowMetadata a) (ex trace det)
       \<and> nodeLevelStats (snd (AddTrace ex trace det a)) = nodeLevelStats a
       \<and> queryLevelStats (snd (AddTrace ex trace det a)) = queryLevelStats a
       \<and> map fst (processorStats (ta_FlowMetadata (snd (AddTrace ex trace det a)))) =
           map fst (processorStats (ta_FlowMetadata a))
       \<and> map fst (streamStats (ta_FlowMetadata (snd (AddTrace ex trace det a)))) =
           map fst (streamStats (ta_FlowMetadata a))
       \<and> map fst (flowStats (ta_FlowMetadata (snd (AddTrace ex trace det a)))) =
           map fst (flowStats (ta_FlowMetadata a))
       \<and> map_of (processorStats (ta_FlowMetadata (snd (AddTrace ex trace det a)))) k =
           map_option
             (attach_processor
                (attached ComponentID_PROCESSOR (applied_entries (ta_FlowMetadata a) (ex trace det)) k))
             (map_of (processorStats (ta_FlowMetadata a)) k)
       \<and> map_of (streamStats (ta_FlowMetadata (snd (AddTrace ex trace det a)))) k =
           map_option
             (attach_stream
                (attached ComponentID_STREAM (applied_entries (ta_FlowMetadata a) (ex trace det)) k))
             (map_of (streamStats (ta_FlowMetadata a)) k)
       \<and> map_of (flowStats (ta_FlowMetadata (snd (AddTrace ex trace det a)))) n =
           map_option
             (\<lambda>fs. fs\<lparr>fs_stats :=
                       fs_stats fs @ appended (applied_entries (ta_FlowMetadata a) (ex trace det)) n\<rparr>)
             (map_of (flowStats (ta_FlowMetadata a)) n)
       \<and> ((\<forall>cc \<in> set (ex trace det). \<not> unknown_component (ta_FlowMetadata a) (fst cc)) \<longrightarrow>
            applied_entries (ta_FlowMetadata a) (ex trace det) = ex trace det
            \<and> first_failure (ta_FlowMetadata a) (ex trace det) = None))"
proof -
  have p: "\<exists>md'. AddTrace_component (c, bag) md = Inr md'
         \<and> map_of (processorStats md') = (map_of (processorStats md))(sint (ID c) \<mapsto> ps\<lparr>ps_stats := Some bag\<rparr>)
         \<and> map fst (processorStats md') = map fst (processorStats md)
         \<and> streamStats md' = streamStats md \<and> flowStats md' = flowStats md"
    if "Type c = ComponentID_PROCESSOR" "map_of (processorStats md) (sint (ID c)) = Some ps"
    using that map_of_Some_key [OF that(2)]
    by (simp add: AddTrace_component_def update_conv' update_keys)
  have s: "\<exists>md'. AddTrace_component (c, bag) md = Inr md'
         \<and> map_of (streamStats md') = (map_of (streamStats md))(sint (ID c) \<mapsto> ss\<lparr>ss_stats := Some bag\<rparr>)
         \<and> map fst (streamStats md') = map fst (streamStats md)
         \<and> processorStats md' = processorStats md \<and> flowStats md' = flowStats md"
    if "Type c = ComponentID_STREAM" "map_of (streamStats md) (sint (ID c)) = Some ss"
    using that map_of_Some_key [OF that(2)]
    by (simp add: AddTrace_component_def update_conv' update_keys)
  have f: "\<exists>md'. AddTrace_component (c, bag) md = Inr md'
         \<and> map_of (flowStats md') = (map_of (flowStats md))(NodeID c \<mapsto> fs\<lparr>fs_stats := fs_stats fs @ [bag]\<rparr>)
         \<and> map fst (flowStats md') = map fst (flowStats md)
         \<and> processorStats md' = processorStats md \<and> streamStats md' = streamStats md"
    if "Type c = ComponentID_FLOW" "map_of (flowStats md) (NodeID c) = Some fs"
    using that map_of_Some_key [OF that(2)]
    by (simp add: AddTrace_component_def update_conv' update_keys)
  have u: "(Type c = ComponentID_PROCESSOR \<and> map_of (processorStats md) (sint (ID c)) = None \<longrightarrow>
        AddTrace_component (c, bag) md = Inl (UnknownProcessor (ID c)))
   \<and> (Type c = ComponentID_STREAM \<and> map_of (streamStats md) (sint (ID c)) = None \<longrightarrow>
        AddTrace_component (c, bag) md = Inl (UnknownStream (ID c)))
   \<and> (Type c = ComponentID_FLOW \<and> map_of (flowStats md) (NodeID c) = None \<longrightarrow>
        AddTrace_component (c, bag) md = Inl (UnknownFlow (FlowID c) (NodeID c)))"
    by (simp add: AddTrace_component_def)
  have ab: "AddTrace ex trace det a =
          (Some err, a\<lparr>ta_FlowMetadata := snd (AddTrace_loop pre (ta_FlowMetadata a))\<rparr>)"
    if "ex trace det = pre @ (c, bag) # post" "fst (AddTrace_loop pre (ta_FlowMetadata a)) = None"
      "AddTrace_component (c, bag) (snd (AddTrace_loop pre (ta_FlowMetadata a))) = Inl err"
    using that by (simp add: AddTrace_def Let_def AddTrace_loop_append)
  have ok: "fst (AddTrace ex trace det a) = None \<longleftrightarrow>
        (\<forall>cc \<in> set (ex trace det). \<not> unknown_component (ta_FlowMetadata a) (fst cc))"
    by (simp add: AddTrace_def Let_def AddTrace_loop_ok_iff)
  from p s f u ab ok AddTrace_call [of ex trace det a k n] show ?thesis by blast
qed

theorem AddTrace_attach_append_abort_witness:
  "AddTrace (\<lambda>trace det. ex_trace_map) ([] :: unit list) False (MakeTraceAnalyzer ex_topology) =
     (Some (UnknownStream 9),
      MakeTraceAnalyzer
        (ex_topology\<lparr>processorStats :=
           [(1, \<lparr>ps_nodeID = 1, ps_stats = Some (ex_kv 100)\<rparr>),
            (2, \<lparr>ps_nodeID = 2, ps_stats = None\<rparr>)]\<rparr>))
   \<and> fst (AddTrace (\<lambda>trace det. ex_trace_map) ([] :: unit list) False (MakeTraceAnalyzer ex_topology2)) = None
   \<and> (\<exists>md'. AddTrace_component
               (\<lparr>FlowID = 0, Type = ComponentID_PROCESSOR, ID = 1, NodeID = 1\<rparr>, ex_kv 100) ex_topology = Inr md'
          \<and> map_of (processorStats md') 1 = Some \<lparr>ps_nodeID = 1, ps_stats = Some (ex_kv 100)\<rparr>)
   \<and> (\<exists>md'. AddTrace_component
               (\<lparr>FlowID = 0, Type = ComponentID_STREAM, ID = 1, NodeID = 1\<rparr>, bag0) ex_topology = Inr md'
          \<and> map_of (streamStats md') 1 =
              Some \<lparr>ss_originNodeID = 1, ss_destinationNodeID = 2, ss_stats = Some bag0\<rparr>)
   \<and> (\<exists>md'. AddTrace_component
               (\<lparr>FlowID = 0, Type = ComponentID_FLOW, ID = 0, NodeID = 2\<rparr>, bag0) ex_topology = Inr md'
          \<and> map_of (flowStats md') 2 = Some \<lparr>fs_stats = [bag0]\<rparr>)
   \<and> AddTrace_component (\<lparr>FlowID = 0, Type = ComponentID_PROCESSOR, ID = 9, NodeID = 1\<rparr>, bag0) ex_topology =
       Inl (UnknownProcessor 9)
   \<and> AddTrace_component (\<lparr>FlowID = 0, Type = ComponentID_STREAM, ID = 9, NodeID = 1\<rparr>, bag0) ex_topology =
       Inl (UnknownStream 9)
   \<and> AddTrace_component (\<lparr>FlowID = 5, Type = ComponentID_FLOW, ID = 0, NodeID = 3\<rparr>, bag0) ex_topology =
       Inl (UnknownFlow 5 3)
   \<and> map_of (processorStats (ta_FlowMetadata (snd (AddTrace (\<lambda>trace det. ex_trace_map) ([] :: unit list) False (MakeTraceAnalyzer ex_topology2))))) 1 =
       Some \<lparr>ps_nodeID = 1, ps_stats = Some (ex_kv 100)\<rparr>
   \<and> map_of (streamStats (ta_FlowMetadata (snd (AddTrace (\<lambda>trace det. ex_trace_map) ([] :: unit list) False (MakeTraceAnalyzer ex_topology2))))) 9 =
       Some \<lparr>ss_originNodeID = 1, ss_destinationNodeID = 2,
             ss_stats = Some (ex_net None (Some 40) None (Some 4) None)\<rparr>
   \<and> map_of (streamStats (ta_FlowMetadata (snd (AddTrace (\<lambda>trace det. ex_trace_map) ([] :: unit list) False (MakeTraceAnalyzer ex_topology2))))) 1 =
       Some \<lparr>ss_originNodeID = 1, ss_destinationNodeID = 2, ss_stats = None\<rparr>
   \<and> fst (AddTrace (\<lambda>trace det. ex_trace_map2) ([] :: unit list) False (MakeTraceAnalyzer ex_topology)) = None
   \<and> map_of (processorStats (ta_FlowMetadata (snd (AddTrace (\<lambda>trace det. ex_trace_map2) ([] :: unit list) False (MakeTraceAnalyzer ex_topology))))) 1 =
       Some \<lparr>ps_nodeID = 1, ps_stats = Some (ex_kv 15)\<rparr>
   \<and> map_of (flowStats (ta_FlowMetadata (snd (AddTrace (\<lambda>trace det. ex_trace_map2) ([] :: unit list) False (MakeTraceAnalyzer ex_topology))))) 1 =
       Some \<lparr>fs_stats = [ex_net None None None None (Some 80), ex_net None None None None (Some 70)]\<rparr>
   \<and> map_of (processorStats (ta_FlowMetadata (snd (AddTrace (\<lambda>trace det. ex_trace_map2) ([] :: unit list) False (MakeTraceAnalyzer ex_topology))))) 2 =
       Some \<lparr>ps_nodeID = 2, ps_stats = None\<rparr>
   \<and> map_of (flowStats (ta_FlowMetadata (snd (AddTrace (\<lambda>trace det. ex_trace_map2) ([] :: unit list) False (MakeTraceAnalyzer ex_topology))))) 2 = Some \<lparr>fs_stats = []\<rparr>
   \<and> fst (AddTrace (\<lambda>trace det. ex_trace_map) ([] :: unit list) False (MakeTraceAnalyzer ex_topology)) = Some (UnknownStream 9)
   \<and> map_of (processorStats (ta_FlowMetadata (snd (AddTrace (\<lambda>trace det. ex_trace_map) ([] :: unit list) False (MakeTraceAnalyzer ex_topology))))) 1 =
       Some \<lparr>ps_nodeID = 1, ps_stats = Some (ex_kv 100)\<rparr>
   \<and> map_of (processorStats (ta_FlowMetadata (snd (AddTrace (\<lambda>trace det. ex_trace_map) ([] :: unit list) False (MakeTraceAnalyzer ex_topology))))) 2 =
       Some \<lparr>ps_nodeID = 2, ps_stats = None\<rparr>"
proof -
  have abort:
    "AddTrace (\<lambda>trace det. ex_trace_map) ([] :: unit list) False (MakeTraceAnalyzer ex_topology) =
     (Some (UnknownStream 9),
      MakeTraceAnalyzer
        (ex_topology\<lparr>processorStats :=
           [(1, \<lparr>ps_nodeID = 1, ps_stats = Some (ex_kv 100)\<rparr>),
            (2, \<lparr>ps_nodeID = 2, ps_stats = None\<rparr>)]\<rparr>))"
    using AddTrace_attach_append_abort
      [where ex = "\<lambda>trace det. ex_trace_map" and trace = "[] :: unit list" and det = False
         and pre = "[(\<lparr>FlowID = 0, Type = ComponentID_PROCESSOR, ID = 1, NodeID = 1\<rparr>, ex_kv 100)]"
         and c = "\<lparr>FlowID = 0, Type = ComponentID_STREAM, ID = 9, NodeID = 1\<rparr>"
         and bag = "ex_net None (Some 40) None (Some 4) None"
         and post = "[(\<lparr>FlowID = 0, Type = ComponentID_PROCESSOR, ID = 2, NodeID = 2\<rparr>, ex_kv 15)]"
         and a = "MakeTraceAnalyzer ex_topology" and err = "UnknownStream 9", THEN conjunct2, THEN conjunct2, THEN conjunct2, THEN conjunct2, THEN conjunct2, THEN conjunct2,
         THEN conjunct1]
    by (simp add: ex_trace_map_def ex_topology_def MakeTraceAnalyzer_def AddTrace_component_def)
  have all_known:
    "fst (AddTrace (\<lambda>trace det. ex_trace_map) ([] :: unit list) False (MakeTraceAnalyzer ex_topology2)) = None"
    using AddTrace_attach_append_abort
      [where ex = "\<lambda>trace det. ex_trace_map" and trace = "[] :: unit list" and det = False
         and a = "MakeTraceAnalyzer ex_topology2", THEN conjunct2, THEN conjunct2, THEN conjunct2, THEN conjunct2, THEN conjunct2, THEN conjunct2, THEN conjunct2, THEN conjunct1]
    by (simp add: ex_trace_map_def ex_topology2_def ex_topology_def MakeTraceAnalyzer_def
        unknown_component_def)
  have proc:
    "\<exists>md'. AddTrace_component
               (\<lparr>FlowID = 0, Type = ComponentID_PROCESSOR, ID = 1, NodeID = 1\<rparr>, ex_kv 100) ex_topology = Inr md'
          \<and> map_of (processorStats md') 1 = Some \<lparr>ps_nodeID = 1, ps_stats = Some (ex_kv 100)\<rparr>"
    using AddTrace_attach_append_abort
      [where c = "\<lparr>FlowID = 0, Type = ComponentID_PROCESSOR, ID = 1, NodeID = 1\<rparr>" and bag = "ex_kv 100"
         and md = ex_topology and ps = "\<lparr>ps_nodeID = 1, ps_stats = None\<rparr>", THEN conjunct1]
    by (fastforce simp add: ex_topology_def)
  have stream:
    "\<exists>md'. AddTrace_component
               (\<lparr>FlowID = 0, Type = ComponentID_STREAM, ID = 1, NodeID = 1\<rparr>, bag0) ex_topology = Inr md'
          \<and> map_of (streamStats md') 1 =
              Some \<lparr>ss_originNodeID = 1, ss_destinationNodeID = 2, ss_stats = Some bag0\<rparr>"
    using AddTrace_attach_append_abort
      [where c = "\<lparr>FlowID = 0, Type = ComponentID_STREAM, ID = 1, NodeID = 1\<rparr>" and bag = bag0
         and md = ex_topology
         and ss = "\<lparr>ss_originNodeID = 1, ss_destinationNodeID = 2, ss_stats = None\<rparr>",
         THEN conjunct2, THEN conjunct1]
    by (fastforce simp add: ex_topology_def)
  have flow:
    "\<exists>md'. AddTrace_component
               (\<lparr>FlowID = 0, Type = ComponentID_FLOW, ID = 0, NodeID = 2\<rparr>, bag0) ex_topology = Inr md'
          \<and> map_of (flowStats md') 2 = Some \<lparr>fs_stats = [bag0]\<rparr>"
    using AddTrace_attach_append_abort
      [where c = "\<lparr>FlowID = 0, Type = ComponentID_FLOW, ID = 0, NodeID = 2\<rparr>" and bag = bag0
         and md = ex_topology and fs = "\<lparr>fs_stats = []\<rparr>",
         THEN conjunct2, THEN conjunct2, THEN conjunct1]
    by (fastforce simp add: ex_topology_def)
  have no_proc:
    "AddTrace_component (\<lparr>FlowID = 0, Type = ComponentID_PROCESSOR, ID = 9, NodeID = 1\<rparr>, bag0) ex_topology =
       Inl (UnknownProcessor 9)"
    using AddTrace_attach_append_abort
      [where c = "\<lparr>FlowID = 0, Type = ComponentID_PROCESSOR, ID = 9, NodeID = 1\<rparr>" and bag = bag0
         and md = ex_topology, THEN conjunct2, THEN conjunct2, THEN conjunct2, THEN conjunct1]
    by (simp add: ex_topology_def)
  have no_stream:
    "AddTrace_component (\<lparr>FlowID = 0, Type = ComponentID_STREAM, ID = 9, NodeID = 1\<rparr>, bag0) ex_topology =
       Inl (UnknownStream 9)"
    using AddTrace_attach_append_abort
      [where c = "\<lparr>FlowID = 0, Type = ComponentID_STREAM, ID = 9, NodeID = 1\<rparr>" and bag = bag0
         and md = ex_topology, THEN conjunct2, THEN conjunct2, THEN conjunct2, THEN conjunct2, THEN conjunct1]
    by (simp add: ex_topology_def)
  have no_flow:
    "AddTrace_component (\<lparr>FlowID = 5, Type = ComponentID_FLOW, ID = 0, NodeID = 3\<rparr>, bag0) ex_topology =
       Inl (UnknownFlow 5 3)"
    using AddTrace_attach_append_abort
      [where c = "\<lparr>FlowID = 5, Type = ComponentID_FLOW, ID = 0, NodeID = 3\<rparr>" and bag = bag0
         and md = ex_topology, THEN conjunct2, THEN conjunct2, THEN conjunct2, THEN conjunct2, THEN conjunct2, THEN conjunct1]
    by (simp add: ex_topology_def)
  have c_succ_p:
    "map_of (processorStats (ta_FlowMetadata (snd (AddTrace (\<lambda>trace det. ex_trace_map) ([] :: unit list) False (MakeTraceAnalyzer ex_topology2))))) 1 =
       Some \<lparr>ps_nodeID = 1, ps_stats = Some (ex_kv 100)\<rparr>"
    using AddTrace_attach_append_abort
      [where ex = "\<lambda>trace det. ex_trace_map" and trace = "[] :: unit list" and det = False
         and a = "MakeTraceAnalyzer ex_topology2" and k = 1 and n = 1, THEN conjunct2, THEN conjunct2, THEN conjunct2, THEN conjunct2, THEN conjunct2, THEN conjunct2, THEN conjunct2, THEN conjunct2]
    by (simp add: ex_trace_map_def ex_trace_map2_def ex_topology_def ex_topology2_def
        MakeTraceAnalyzer_def applied_entries_def first_failure_def unknown_component_def
        unknown_error_def attached_def appended_def attach_processor_def attach_stream_def)
  have c_succ_s:
    "map_of (streamStats (ta_FlowMetadata (snd (AddTrace (\<lambda>trace det. ex_trace_map) ([] :: unit list) False (MakeTraceAnalyzer ex_topology2))))) 9 =
       Some \<lparr>ss_originNodeID = 1, ss_destinationNodeID = 2,
             ss_stats = Some (ex_net None (Some 40) None (Some 4) None)\<rparr>"
    using AddTrace_attach_append_abort
      [where ex = "\<lambda>trace det. ex_trace_map" and trace = "[] :: unit list" and det = False
         and a = "MakeTraceAnalyzer ex_topology2" and k = 9 and n = 1, THEN conjunct2, THEN conjunct2, THEN conjunct2, THEN conjunct2, THEN conjunct2, THEN conjunct2, THEN conjunct2, THEN conjunct2]
    by (simp add: ex_trace_map_def ex_trace_map2_def ex_topology_def ex_topology2_def
        MakeTraceAnalyzer_def applied_entries_def first_failure_def unknown_component_def
        unknown_error_def attached_def appended_def attach_processor_def attach_stream_def)
  have c_succ1:
    "map_of (streamStats (ta_FlowMetadata (snd (AddTrace (\<lambda>trace det. ex_trace_map) ([] :: unit list) False (MakeTraceAnalyzer ex_topology2))))) 1 =
       Some \<lparr>ss_originNodeID = 1, ss_destinationNodeID = 2, ss_stats = None\<rparr>"
    using AddTrace_attach_append_abort
      [where ex = "\<lambda>trace det. ex_trace_map" and trace = "[] :: unit list" and det = False
         and a = "MakeTraceAnalyzer ex_topology2" and k = 1 and n = 1, THEN conjunct2, THEN conjunct2, THEN conjunct2, THEN conjunct2, THEN conjunct2, THEN conjunct2, THEN conjunct2, THEN conjunct2]
    by (simp add: ex_trace_map_def ex_trace_map2_def ex_topology_def ex_topology2_def
        MakeTraceAnalyzer_def applied_entries_def first_failure_def unknown_component_def
        unknown_error_def attached_def appended_def attach_processor_def attach_stream_def)
  have c_last1:
    "fst (AddTrace (\<lambda>trace det. ex_trace_map2) ([] :: unit list) False (MakeTraceAnalyzer ex_topology)) = None
   \<and> map_of (processorStats (ta_FlowMetadata (snd (AddTrace (\<lambda>trace det. ex_trace_map2) ([] :: unit list) False (MakeTraceAnalyzer ex_topology))))) 1 =
       Some \<lparr>ps_nodeID = 1, ps_stats = Some (ex_kv 15)\<rparr>
   \<and> map_of (flowStats (ta_FlowMetadata (snd (AddTrace (\<lambda>trace det. ex_trace_map2) ([] :: unit list) False (MakeTraceAnalyzer ex_topology))))) 1 =
       Some \<lparr>fs_stats = [ex_net None None None None (Some 80), ex_net None None None None (Some 70)]\<rparr>"
    using AddTrace_attach_append_abort
      [where ex = "\<lambda>trace det. ex_trace_map2" and trace = "[] :: unit list" and det = False
         and a = "MakeTraceAnalyzer ex_topology" and k = 1 and n = 1, THEN conjunct2, THEN conjunct2, THEN conjunct2, THEN conjunct2, THEN conjunct2, THEN conjunct2, THEN conjunct2, THEN conjunct2]
    by (simp add: ex_trace_map_def ex_trace_map2_def ex_topology_def ex_topology2_def
        MakeTraceAnalyzer_def applied_entries_def first_failure_def unknown_component_def
        unknown_error_def attached_def appended_def attach_processor_def attach_stream_def)
  have c_last2:
    "map_of (processorStats (ta_FlowMetadata (snd (AddTrace (\<lambda>trace det. ex_trace_map2) ([] :: unit list) False (MakeTraceAnalyzer ex_topology))))) 2 =
       Some \<lparr>ps_nodeID = 2, ps_stats = None\<rparr>
   \<and> map_of (flowStats (ta_FlowMetadata (snd (AddTrace (\<lambda>trace det. ex_trace_map2) ([] :: unit list) False (MakeTraceAnalyzer ex_topology))))) 2 = Some \<lparr>fs_stats = []\<rparr>"
    using AddTrace_attach_append_abort
      [where ex = "\<lambda>trace det. ex_trace_map2" and trace = "[] :: unit list" and det = False
         and a = "MakeTraceAnalyzer ex_topology" and k = 2 and n = 2, THEN conjunct2, THEN conjunct2, THEN conjunct2, THEN conjunct2, THEN conjunct2, THEN conjunct2, THEN conjunct2, THEN conjunct2]
    by (simp add: ex_trace_map_def ex_trace_map2_def ex_topology_def ex_topology2_def
        MakeTraceAnalyzer_def applied_entries_def first_failure_def unknown_component_def
        unknown_error_def attached_def appended_def attach_processor_def attach_stream_def)
  have c_ab1:
    "fst (AddTrace (\<lambda>trace det. ex_trace_map) ([] :: unit list) False (MakeTraceAnalyzer ex_topology)) = Some (UnknownStream 9)
   \<and> map_of (processorStats (ta_FlowMetadata (snd (AddTrace (\<lambda>trace det. ex_trace_map) ([] :: unit list) False (MakeTraceAnalyzer ex_topology))))) 1 =
       Some \<lparr>ps_nodeID = 1, ps_stats = Some (ex_kv 100)\<rparr>"
    using AddTrace_attach_append_abort
      [where ex = "\<lambda>trace det. ex_trace_map" and trace = "[] :: unit list" and det = False
         and a = "MakeTraceAnalyzer ex_topology" and k = 1 and n = 1, THEN conjunct2, THEN conjunct2, THEN conjunct2, THEN conjunct2, THEN conjunct2, THEN conjunct2, THEN conjunct2, THEN conjunct2]
    by (simp add: ex_trace_map_def ex_trace_map2_def ex_topology_def ex_topology2_def
        MakeTraceAnalyzer_def applied_entries_def first_failure_def unknown_component_def
        unknown_error_def attached_def appended_def attach_processor_def attach_stream_def)
  have c_ab2:
    "map_of (processorStats (ta_FlowMetadata (snd (AddTrace (\<lambda>trace det. ex_trace_map) ([] :: unit list) False (MakeTraceAnalyzer ex_topology))))) 2 =
       Some \<lparr>ps_nodeID = 2, ps_stats = None\<rparr>"
    using AddTrace_attach_append_abort
      [where ex = "\<lambda>trace det. ex_trace_map" and trace = "[] :: unit list" and det = False
         and a = "MakeTraceAnalyzer ex_topology" and k = 2 and n = 1, THEN conjunct2, THEN conjunct2, THEN conjunct2, THEN conjunct2, THEN conjunct2, THEN conjunct2, THEN conjunct2, THEN conjunct2]
    by (simp add: ex_trace_map_def ex_trace_map2_def ex_topology_def ex_topology2_def
        MakeTraceAnalyzer_def applied_entries_def first_failure_def unknown_component_def
        unknown_error_def attached_def appended_def attach_processor_def attach_stream_def)
  from abort all_known proc stream flow no_proc no_stream no_flow
    c_succ_p c_succ_s c_succ1 c_last1 c_last2 c_ab1 c_ab2
  show ?thesis by blast
qed





text \<open>
  C9. The metrics of a stream are computed independently of each other. Take any
  stream of the topology that has a bag. If exactly one of its message counts is
  present, the count is added to the network-messages total of its origin node: the
  total is the one computed without the stream, plus the count. Nothing is asked of
  the byte counts, so this holds when they violate the exclusivity rule; and the
  same holds for the byte counts, whatever the message counts are. If its flow
  sub-bag has a peak-memory value, the value takes part in the max-memory reduction
  of its origin node: the node's value is the larger of that peak and the value
  computed without the stream, as signed 64-bit integers, whatever the byte and
  message counts are.
\<close>

theorem stream_metrics_independent:
  "streamStats (ta_FlowMetadata a) = pre @ (sid, ss) # post \<and> ss_stats ss = Some cs \<longrightarrow>
     (exactly_one (BytesReceived (NetRx cs)) (BytesSent (NetTx cs)) = Some b \<longrightarrow>
        lookup0 (NetworkBytesSentGroupedByNode (GetNodeLevelStats (snd (ProcessStats a)))) (ss_originNodeID ss) =
        lookup0 (NetworkBytesSentGroupedByNode (GetNodeLevelStats (snd (ProcessStats
           (a\<lparr>ta_FlowMetadata := (ta_FlowMetadata a)\<lparr>streamStats := pre @ post\<rparr>\<rparr>)))))
          (ss_originNodeID ss) + b)
     \<and> (exactly_one (MessagesReceived (NetRx cs)) (MessagesSent (NetTx cs)) = Some m \<longrightarrow>
        lookup0 (NetworkMessagesGroupedByNode (GetNodeLevelStats (snd (ProcessStats a)))) (ss_originNodeID ss) =
        lookup0 (NetworkMessagesGroupedByNode (GetNodeLevelStats (snd (ProcessStats
           (a\<lparr>ta_FlowMetadata := (ta_FlowMetadata a)\<lparr>streamStats := pre @ post\<rparr>\<rparr>)))))
          (ss_originNodeID ss) + m)
     \<and> (MaxMemUsage (FlowStats cs) = Some p \<longrightarrow>
        sint (lookup0 (MaxMemoryUsageGroupedByNode (GetNodeLevelStats (snd (ProcessStats a)))) (ss_originNodeID ss)) =
        max (sint (lookup0 (MaxMemoryUsageGroupedByNode (GetNodeLevelStats (snd (ProcessStats
               (a\<lparr>ta_FlowMetadata := (ta_FlowMetadata a)\<lparr>streamStats := pre @ post\<rparr>\<rparr>)))))
              (ss_originNodeID ss)))
          (sint p))"
proof -
  let ?md = "ta_FlowMetadata a"
  let ?n = "ss_originNodeID ss"
  let ?a' = "a\<lparr>ta_FlowMetadata := ?md\<lparr>streamStats := pre @ post\<rparr>\<rparr>"
  have main: "lookup0 (NetworkBytesSentGroupedByNode (GetNodeLevelStats (snd (ProcessStats a)))) ?n =
        lookup0 (NetworkBytesSentGroupedByNode (GetNodeLevelStats (snd (ProcessStats ?a')))) ?n
          + (case bytes_of cs of None \<Rightarrow> 0 | Some b \<Rightarrow> b)
      \<and> lookup0 (NetworkMessagesGroupedByNode (GetNodeLevelStats (snd (ProcessStats a)))) ?n =
        lookup0 (NetworkMessagesGroupedByNode (GetNodeLevelStats (snd (ProcessStats ?a')))) ?n
          + (case messages_of cs of None \<Rightarrow> 0 | Some m \<Rightarrow> m)
      \<and> (peak_of cs = Some p \<longrightarrow>
          sint (lookup0 (MaxMemoryUsageGroupedByNode (GetNodeLevelStats (snd (ProcessStats a)))) ?n) =
          max (sint (lookup0 (MaxMemoryUsageGroupedByNode (GetNodeLevelStats (snd (ProcessStats ?a')))) ?n))
            (sint p))"
    if split: "streamStats ?md = pre @ (sid, ss) # post" and bag: "ss_stats ss = Some cs"
  proof -
    note sb = stream_bags_split [OF split bag]
    have b: "lookup0 (NetworkBytesSentGroupedByNode (GetNodeLevelStats (snd (ProcessStats a)))) ?n =
        lookup0 (NetworkBytesSentGroupedByNode (GetNodeLevelStats (snd (ProcessStats ?a')))) ?n
          + (case bytes_of cs of None \<Rightarrow> 0 | Some b \<Rightarrow> b)"
      by (simp add: node_bytes_total sb stream_bags_removed map_filter_append split: option.splits)
    have m: "lookup0 (NetworkMessagesGroupedByNode (GetNodeLevelStats (snd (ProcessStats a)))) ?n =
        lookup0 (NetworkMessagesGroupedByNode (GetNodeLevelStats (snd (ProcessStats ?a')))) ?n
          + (case messages_of cs of None \<Rightarrow> 0 | Some m \<Rightarrow> m)"
      by (simp add: node_messages_total sb stream_bags_removed map_filter_append split: option.splits)
    have p: "sint (lookup0 (MaxMemoryUsageGroupedByNode (GetNodeLevelStats (snd (ProcessStats a)))) ?n) =
          max (sint (lookup0 (MaxMemoryUsageGroupedByNode (GetNodeLevelStats (snd (ProcessStats ?a')))) ?n))
            (sint p)" if pk: "peak_of cs = Some p"
    proof -
      let ?A = "set (node_peaks (?md\<lparr>streamStats := pre @ post\<rparr>) ?n)"
      have "set (node_peaks ?md ?n) = insert p ?A"
        using pk by (auto simp add: node_peaks_def sb stream_bags_removed map_filter_append flow_bags_streams)
      then have "insert 0 (sint ` set (node_peaks ?md ?n)) = insert (sint p) (insert 0 (sint ` ?A))"
        by auto
      then show ?thesis
        by (simp add: node_peak_total max.commute del: Max_insert)
          (simp add: max.commute)
    qed
    from b m p show ?thesis by blast
  qed
  then show ?thesis
    by (auto simp add: bytes_of_exactly_one messages_of_exactly_one peak_of_def)
qed

theorem stream_metrics_independent_witness:
  "getNetworkBytesFromComponentStats (ex_net (Some 5) (Some 6) (Some 3) None (Some 90)) = Inl BothBytesSet
   \<and> lookup0 (NetworkMessagesGroupedByNode
                (GetNodeLevelStats (snd (ProcessStats (MakeTraceAnalyzer ex_md2))))) 1 = 7
   \<and> sint (lookup0 (MaxMemoryUsageGroupedByNode
                      (GetNodeLevelStats (snd (ProcessStats (MakeTraceAnalyzer ex_md2))))) 1) = 90
   \<and> getNumNetworkMessagesFromComponentsStats (ex_net None (Some 8) (Some 2) (Some 2) None) =
       Inl BothMessagesSet
   \<and> lookup0 (NetworkBytesSentGroupedByNode
                (GetNodeLevelStats (snd (ProcessStats (MakeTraceAnalyzer ex_md2))))) 1 = 48"
proof -
  have bad_bytes:
    "lookup0 (NetworkMessagesGroupedByNode
                (GetNodeLevelStats (snd (ProcessStats (MakeTraceAnalyzer ex_md2))))) 1 = 7
     \<and> sint (lookup0 (MaxMemoryUsageGroupedByNode
                      (GetNodeLevelStats (snd (ProcessStats (MakeTraceAnalyzer ex_md2))))) 1) = 90"
    using stream_metrics_independent
      [where a = "MakeTraceAnalyzer ex_md2" and pre = "[(1, ex_good_stream)]" and sid = 2
        and ss = ex_bad_bytes_stream and post = "[(3, ex_bad_messages_stream)]"
        and cs = "ex_net (Some 5) (Some 6) (Some 3) None (Some 90)" and m = 3 and p = 90]
    by (simp add: MakeTraceAnalyzer_metadata ex_md2_streams ex_md2_without2 ex_bad_bytes_bag lookup0_def)
  have bad_messages:
    "lookup0 (NetworkBytesSentGroupedByNode
                (GetNodeLevelStats (snd (ProcessStats (MakeTraceAnalyzer ex_md2))))) 1 = 48"
    using stream_metrics_independent
      [where a = "MakeTraceAnalyzer ex_md2" and pre = "[(1, ex_good_stream), (2, ex_bad_bytes_stream)]"
        and sid = 3 and ss = ex_bad_messages_stream and post = "[]"
        and cs = "ex_net None (Some 8) (Some 2) (Some 2) None" and b = 8]
    by (simp add: MakeTraceAnalyzer_metadata ex_md2_streams ex_md2_without3 ex_bad_messages_bag lookup0_def)
  from bad_bytes bad_messages ex_bad_bytes_bag ex_bad_messages_bag show ?thesis by simp
qed

end
